theory Spec2Isabelle
  imports Main "HOL-Library.Word"
begin

section \<open>Password strength meter and password schema (SignupForm)\<close>

text \<open>
  A JavaScript string is a sequence of UTF-16 code units; \<open>password.length\<close> counts
  code units and a regular expression without the \<open>u\<close> flag tests code units.
\<close>

type_synonym code_unit = "16 word"
type_synonym js_string = "code_unit list"

definition utf16 :: "string \<Rightarrow> js_string" where
  "utf16 s = map of_char s"

text \<open>The character classes \<open>[A-Z]\<close>, \<open>[a-z]\<close>, \<open>\d\<close> and
  \<open>[!@#$%^&*(),.?":{}|<>]\<close> of the source.\<close>

definition re_upper :: "code_unit \<Rightarrow> bool" where
  "re_upper c = (0x41 \<le> c \<and> c \<le> 0x5A)"

definition re_lower :: "code_unit \<Rightarrow> bool" where
  "re_lower c = (0x61 \<le> c \<and> c \<le> 0x7A)"

definition re_digit :: "code_unit \<Rightarrow> bool" where
  "re_digit c = (0x30 \<le> c \<and> c \<le> 0x39)"

definition special_chars :: "js_string" where
  "special_chars = utf16 (''!@#$%^&*(),.?'' @ [CHR 0x22] @ '':{}|<>'')"

definition re_special :: "code_unit \<Rightarrow> bool" where
  "re_special c = (c \<in> set special_chars)"

text \<open>\<open>/re/.test(s)\<close> for a one-character class: some code unit of \<open>s\<close> is in the class.\<close>

definition re_test :: "(code_unit \<Rightarrow> bool) \<Rightarrow> js_string \<Rightarrow> bool" where
  "re_test cls s = list_ex cls s"

definition getPasswordStrength :: "js_string \<Rightarrow> nat" where
  "getPasswordStrength password =
     (let strength = 0;
          strength = (if length password \<ge> 8 then strength + 1 else strength);
          strength = (if re_test re_upper password then strength + 1 else strength);
          strength = (if re_test re_lower password then strength + 1 else strength);
          strength = (if re_test re_digit password then strength + 1 else strength);
          strength = (if re_test re_special password then strength + 1 else strength)
      in strength)"

text \<open>\<open>passwordValue ? getPasswordStrength(passwordValue) : 0\<close>: the watched value is
  \<open>undefined\<close> before the first input, and the empty string is falsy.\<close>

definition passwordStrength :: "js_string option \<Rightarrow> nat" where
  "passwordStrength passwordValue =
     (case passwordValue of
        None \<Rightarrow> 0
      | Some p \<Rightarrow> if p \<noteq> [] then getPasswordStrength p else 0)"

definition strength_label :: "nat \<Rightarrow> string" where
  "strength_label s =
     (if s \<le> 2 then ''Weak''
      else if s \<le> 3 then ''Fair''
      else if s \<le> 4 then ''Good'' else ''Strong'')"

text \<open>The \<open>password\<close> field of \<open>signupSchema\<close>: every check of the chain that fails
  contributes its message; the field is accepted when no message is produced.\<close>

definition signupSchema_password :: "js_string \<Rightarrow> string list" where
  "signupSchema_password p =
     (if length p \<ge> 8 then [] else [''Password must be at least 8 characters''])
   @ (if re_test re_upper p then [] else [''Password must contain at least one uppercase letter''])
   @ (if re_test re_lower p then [] else [''Password must contain at least one lowercase letter''])
   @ (if re_test re_digit p then [] else [''Password must contain at least one number''])
   @ (if re_test re_special p then []
      else [''Password must contain at least one special character''])"

definition password_accepted :: "js_string \<Rightarrow> bool" where
  "password_accepted p = (signupSchema_password p = [])"

section \<open>JavaScript values, HTTP messages and the browser state\<close>

text \<open>JSON-like run-time values: what a response body, a form's data object or the
  user object can be.\<close>

datatype js_value =
    JUndefined
  | JNull
  | JBool bool
  | JNum int
  | JStr string
  | JArr "js_value list"
  | JObj "(string \<times> js_value) list"

text \<open>Truthiness, as tested by \<open>if (user)\<close> and \<open>a || b\<close>.\<close>

fun truthy :: "js_value \<Rightarrow> bool" where
  "truthy JUndefined = False"
| "truthy JNull = False"
| "truthy (JBool b) = b"
| "truthy (JNum n) = (n \<noteq> 0)"
| "truthy (JStr s) = (s \<noteq> [])"
| "truthy (JArr xs) = True"
| "truthy (JObj kvs) = True"

text \<open>Optional property access \<open>v?.k\<close>: \<open>undefined\<close> when the property is missing
  or \<open>v\<close> is not an object.\<close>

fun opt_prop :: "js_value \<Rightarrow> string \<Rightarrow> js_value" where
  "opt_prop (JObj kvs) k = (case map_of kvs k of Some v \<Rightarrow> v | None \<Rightarrow> JUndefined)"
| "opt_prop v k = JUndefined"

text \<open>Object spread \<open>{ ...a, ...b }\<close>: the properties of \<open>a\<close>, each overwritten by
  the property of the same name in \<open>b\<close>, followed by the new properties of \<open>b\<close>.
  Spreading \<open>null\<close>, \<open>undefined\<close> or a primitive contributes nothing.\<close>

fun own_props :: "js_value \<Rightarrow> (string \<times> js_value) list" where
  "own_props (JObj kvs) = kvs"
| "own_props v = []"

fun set_prop :: "string \<Rightarrow> js_value \<Rightarrow> (string \<times> js_value) list \<Rightarrow> (string \<times> js_value) list" where
  "set_prop k v [] = [(k, v)]"
| "set_prop k v ((k', v') # kvs) =
     (if k' = k then (k, v) # kvs else (k', v') # set_prop k v kvs)"

definition spread2 :: "js_value \<Rightarrow> js_value \<Rightarrow> js_value" where
  "spread2 a b = JObj (foldl (\<lambda>acc (k, v). set_prop k v acc) (own_props a) (own_props b))"

datatype http_method = GET | POST | PATCH | DELETE

record http_request =
  req_method :: http_method
  req_url :: string
  req_data :: js_value
  req_params :: js_value
  req_headers :: "(string \<times> string) list"
  req_responseType :: "string option"

record http_response =
  status :: nat
  resp_data :: js_value

text \<open>A thrown value: the error axios rejects with (it carries the response when the
  server answered, and none on a network failure or timeout), or another run-time error.\<close>

datatype js_error = AxiosError "http_response option" | TypeError string

fun error_response :: "js_error \<Rightarrow> http_response option" where
  "error_response (AxiosError r) = r"
| "error_response (TypeError m) = None"

text \<open>\<open>err.response?.status\<close> and \<open>err.response?.data?.code\<close>.\<close>

definition error_status :: "js_error \<Rightarrow> nat option" where
  "error_status e = map_option status (error_response e)"

definition error_code :: "js_error \<Rightarrow> js_value" where
  "error_code e =
     (case error_response e of None \<Rightarrow> JUndefined | Some r \<Rightarrow> opt_prop (resp_data r) ''code'')"

text \<open>The settled state of an awaited promise.\<close>

datatype 'a promise = Resolved 'a | Rejected js_error

datatype toast_variant = success | destructive | warning | info

record toast =
  title :: string
  description :: string
  variant :: toast_variant

text \<open>
  Everything outside a single form that the handlers read or change: whether the code runs
  in a browser (\<open>typeof window !== 'undefined'\<close>), \<open>localStorage\<close>,
  \<open>window.location.href\<close>, the requests that have left the client, the labels passed to
  \<open>console.error\<close>, the auth provider's \<open>user\<close> state, the paths given to
  \<open>router.push\<close>, and the toasts shown.
\<close>

record world =
  has_window :: bool
  localStorage :: "string \<rightharpoonup> string"
  location_href :: string
  sent :: "http_request list"
  console :: "string list"
  user :: js_value
  pushes :: "string list"
  toasts :: "toast list"

text \<open>The backend as the client sees it: for the request with a given sequence number it
  answers with a response, or with nothing (network failure, or the 30 s timeout).\<close>

type_synonym server = "nat \<Rightarrow> http_request \<Rightarrow> http_response option"

text \<open>
  Library and helper functions that the repository calls but does not contain
  (\<open>JSON.stringify\<close>, string conversion by \<open>localStorage.setItem\<close>, and
  \<open>getErrorMessage\<close> / \<open>getFieldErrors\<close> of \<open>@/lib/utils\<close>) are parameters.
\<close>

record runtime =
  JSON_stringify :: "js_value \<Rightarrow> string"
  to_String :: "js_value \<Rightarrow> string"
  getErrorMessage :: "js_error \<Rightarrow> string"
  getFieldErrors :: "js_error \<Rightarrow> (string \<rightharpoonup> string list)"

section \<open>The shared axios instance and its interceptors\<close>

record axios_config =
  cfg_params :: js_value
  cfg_headers :: "(string \<times> string) list"
  cfg_responseType :: "string option"

definition no_config :: axios_config where
  "no_config = \<lparr>cfg_params = JUndefined, cfg_headers = [], cfg_responseType = None\<rparr>"

fun set_header :: "string \<Rightarrow> string \<Rightarrow> (string \<times> string) list \<Rightarrow> (string \<times> string) list" where
  "set_header k v [] = [(k, v)]"
| "set_header k v ((k', v') # hs) =
     (if k' = k then (k, v) # hs else (k', v') # set_header k v hs)"

text \<open>The instance defaults of \<open>axios.create\<close> (the JSON content type), overridden by the
  headers of the call's own config.\<close>

definition default_headers :: "(string \<times> string) list" where
  "default_headers = [(''Content-Type'', ''application/json'')]"

definition make_request ::
    "http_method \<Rightarrow> string \<Rightarrow> js_value \<Rightarrow> axios_config \<Rightarrow> http_request" where
  "make_request m url' d cfg =
     \<lparr>req_method = m, req_url = url', req_data = d, req_params = cfg_params cfg,
      req_headers = foldl (\<lambda>hs (k, v). set_header k v hs) default_headers (cfg_headers cfg),
      req_responseType = cfg_responseType cfg\<rparr>"

text \<open>Request interceptor: add the stored token as \<open>Authorization: Token <token>\<close>.\<close>

definition request_interceptor :: "world \<Rightarrow> http_request \<Rightarrow> http_request" where
  "request_interceptor w config =
     (let token = (if has_window w then localStorage w ''auth_token'' else None)
      in case token of
           None \<Rightarrow> config
         | Some t \<Rightarrow>
             if t \<noteq> [] then
               config\<lparr>req_headers := set_header ''Authorization'' (''Token '' @ t) (req_headers config)\<rparr>
             else config)"

text \<open>Response interceptor, error handler: what it does to the browser before it rejects
  with the same error.\<close>

definition response_error_interceptor :: "js_error \<Rightarrow> world \<Rightarrow> world" where
  "response_error_interceptor e w =
     (let w1 = (if error_status e = Some 401 then
                  (if has_window w then
                     w\<lparr>localStorage := (localStorage w)(''auth_token'' := None),
                       location_href := ''/login''\<rparr>
                   else w)
                else w);
          w2 = (if error_status e = Some 403 then
                  w1\<lparr>console := console w1 @ [''Permission denied:'']\<rparr>
                else w1);
          w3 = (if error_status e = Some 429 then
                  w2\<lparr>console := console w2 @ [''Rate limit exceeded:'']\<rparr>
                else w2)
      in w3)"

text \<open>
  One request through the instance: the request interceptor, the transmission (recorded in
  \<open>sent\<close>), and the response interceptor. Axios resolves a response whose status is
  2xx (its default \<open>validateStatus\<close>; the instance does not override it) through the
  fulfilled handler, which returns the response as it is, and rejects everything else
  through the error handler.
\<close>

definition axios_request ::
    "server \<Rightarrow> http_request \<Rightarrow> world \<Rightarrow> http_response promise \<times> world" where
  "axios_request srv config w =
     (let req = request_interceptor w config;
          w1 = w\<lparr>sent := sent w @ [req]\<rparr>
      in case srv (length (sent w)) req of
           None \<Rightarrow> (Rejected (AxiosError None), response_error_interceptor (AxiosError None) w1)
         | Some r \<Rightarrow>
             if 200 \<le> status r \<and> status r < 300 then (Resolved r, w1)
             else (Rejected (AxiosError (Some r)),
                   response_error_interceptor (AxiosError (Some r)) w1))"

definition api_get ::
    "server \<Rightarrow> string \<Rightarrow> axios_config \<Rightarrow> world \<Rightarrow> http_response promise \<times> world" where
  "api_get srv url' cfg = axios_request srv (make_request GET url' JUndefined cfg)"

definition api_delete ::
    "server \<Rightarrow> string \<Rightarrow> axios_config \<Rightarrow> world \<Rightarrow> http_response promise \<times> world" where
  "api_delete srv url' cfg = axios_request srv (make_request DELETE url' JUndefined cfg)"

definition api_post ::
    "server \<Rightarrow> string \<Rightarrow> js_value \<Rightarrow> axios_config \<Rightarrow> world
      \<Rightarrow> http_response promise \<times> world" where
  "api_post srv url' d cfg = axios_request srv (make_request POST url' d cfg)"

definition api_patch ::
    "server \<Rightarrow> string \<Rightarrow> js_value \<Rightarrow> axios_config \<Rightarrow> world
      \<Rightarrow> http_response promise \<times> world" where
  "api_patch srv url' d cfg = axios_request srv (make_request PATCH url' d cfg)"

section \<open>ApiClient\<close>

text \<open>\<open>ApiClient.auth\<close>\<close>

datatype auth_call =
    auth_login js_value
  | auth_register js_value
  | auth_logout
  | auth_verifyEmail js_value
  | auth_requestPasswordReset js_value
  | auth_confirmPasswordReset js_value
  | auth_changePassword js_value
  | auth_initiateSso js_value
  | auth_ssoDiscovery string

fun ApiClient_auth :: "server \<Rightarrow> auth_call \<Rightarrow> world \<Rightarrow> http_response promise \<times> world" where
  "ApiClient_auth srv (auth_login data) =
     api_post srv ''/users/login/'' data no_config"
| "ApiClient_auth srv (auth_register data) =
     api_post srv ''/users/register/'' data no_config"
| "ApiClient_auth srv auth_logout =
     api_post srv ''/users/logout/'' JUndefined no_config"
| "ApiClient_auth srv (auth_verifyEmail data) =
     api_post srv ''/users/verify-email/'' data no_config"
| "ApiClient_auth srv (auth_requestPasswordReset data) =
     api_post srv ''/users/request-password-reset/'' data no_config"
| "ApiClient_auth srv (auth_confirmPasswordReset data) =
     api_post srv ''/users/confirm-password-reset/'' data no_config"
| "ApiClient_auth srv (auth_changePassword data) =
     api_post srv ''/users/change-password/'' data no_config"
| "ApiClient_auth srv (auth_initiateSso data) =
     api_post srv ''/users/sso/initiate/'' data no_config"
| "ApiClient_auth srv (auth_ssoDiscovery domain) =
     api_get srv (''/users/sso/discovery/?domain='' @ domain) no_config"

text \<open>\<open>ApiClient.users\<close>\<close>

datatype users_call =
    users_getProfile
  | users_updateProfile js_value
  | users_getPublicProfile string
  | users_getMfaDevices
  | users_setupMfa js_value
  | users_verifyMfa js_value
  | users_disableMfa js_value
  | users_regenerateBackupCodes js_value
  | users_getSessions
  | users_revokeSession string
  | users_revokeAllSessions
  | users_getInvitations
  | users_sendInvitation js_value
  | users_respondToInvitation js_value
  | users_getAuditLogs
  | users_getRoles
  | users_getPermissions

fun ApiClient_users :: "server \<Rightarrow> users_call \<Rightarrow> world \<Rightarrow> http_response promise \<times> world" where
  "ApiClient_users srv users_getProfile =
     api_get srv ''/users/profile/'' no_config"
| "ApiClient_users srv (users_updateProfile data) =
     api_patch srv ''/users/profile/'' data no_config"
| "ApiClient_users srv (users_getPublicProfile slug) =
     api_get srv (''/users/public/'' @ slug @ ''/'') no_config"
| "ApiClient_users srv users_getMfaDevices =
     api_get srv ''/users/mfa/devices/'' no_config"
| "ApiClient_users srv (users_setupMfa data) =
     api_post srv ''/users/mfa/setup/'' data no_config"
| "ApiClient_users srv (users_verifyMfa data) =
     api_post srv ''/users/mfa/verify/'' data no_config"
| "ApiClient_users srv (users_disableMfa data) =
     api_post srv ''/users/mfa/disable/'' data no_config"
| "ApiClient_users srv (users_regenerateBackupCodes data) =
     api_post srv ''/users/mfa/backup-codes/regenerate/'' data no_config"
| "ApiClient_users srv users_getSessions =
     api_get srv ''/users/sessions/'' no_config"
| "ApiClient_users srv (users_revokeSession sessionId) =
     api_post srv (''/users/sessions/'' @ sessionId @ ''/revoke/'') JUndefined no_config"
| "ApiClient_users srv users_revokeAllSessions =
     api_post srv ''/users/sessions/revoke-all/'' JUndefined no_config"
| "ApiClient_users srv users_getInvitations =
     api_get srv ''/users/invitations/'' no_config"
| "ApiClient_users srv (users_sendInvitation data) =
     api_post srv ''/users/invitations/'' data no_config"
| "ApiClient_users srv (users_respondToInvitation data) =
     api_post srv ''/users/invitations/respond/'' data no_config"
| "ApiClient_users srv users_getAuditLogs =
     api_get srv ''/users/audit-logs/'' no_config"
| "ApiClient_users srv users_getRoles =
     api_get srv ''/users/roles/'' no_config"
| "ApiClient_users srv users_getPermissions =
     api_get srv ''/users/permissions/'' no_config"

text \<open>\<open>ApiClient.events\<close>\<close>

datatype events_call =
    events_getEventTypes
  | events_createEventType js_value
  | events_getEventType string
  | events_updateEventType string js_value
  | events_deleteEventType string
  | events_getPublicOrganizer string
  | events_getPublicEventType string string
  | events_getAvailableSlots string string js_value
  | events_getBookings js_value
  | events_getBooking string
  | events_updateBooking string js_value
  | events_createBooking js_value
  | events_getBookingByToken string
  | events_manageBooking string js_value
  | events_addAttendee string js_value
  | events_removeAttendee string string
  | events_getBookingAnalytics js_value
  | events_getBookingAuditLogs string

fun ApiClient_events :: "server \<Rightarrow> events_call \<Rightarrow> world \<Rightarrow> http_response promise \<times> world" where
  "ApiClient_events srv events_getEventTypes =
     api_get srv ''/events/event-types/'' no_config"
| "ApiClient_events srv (events_createEventType data) =
     api_post srv ''/events/event-types/'' data no_config"
| "ApiClient_events srv (events_getEventType id') =
     api_get srv (''/events/event-types/'' @ id' @ ''/'') no_config"
| "ApiClient_events srv (events_updateEventType id' data) =
     api_patch srv (''/events/event-types/'' @ id' @ ''/'') data no_config"
| "ApiClient_events srv (events_deleteEventType id') =
     api_delete srv (''/events/event-types/'' @ id' @ ''/'') no_config"
| "ApiClient_events srv (events_getPublicOrganizer slug) =
     api_get srv (''/events/public/'' @ slug @ ''/'') no_config"
| "ApiClient_events srv (events_getPublicEventType organizerSlug eventTypeSlug) =
     api_get srv (''/events/public/'' @ organizerSlug @ ''/'' @ eventTypeSlug @ ''/'') no_config"
| "ApiClient_events srv (events_getAvailableSlots organizerSlug eventTypeSlug params) =
     api_get srv (''/events/slots/'' @ organizerSlug @ ''/'' @ eventTypeSlug @ ''/'') (no_config\<lparr>cfg_params := params\<rparr>)"
| "ApiClient_events srv (events_getBookings params) =
     api_get srv ''/events/bookings/'' (no_config\<lparr>cfg_params := params\<rparr>)"
| "ApiClient_events srv (events_getBooking id') =
     api_get srv (''/events/bookings/'' @ id' @ ''/'') no_config"
| "ApiClient_events srv (events_updateBooking id' data) =
     api_patch srv (''/events/bookings/'' @ id' @ ''/'') data no_config"
| "ApiClient_events srv (events_createBooking data) =
     api_post srv ''/events/bookings/create/'' data no_config"
| "ApiClient_events srv (events_getBookingByToken token) =
     api_get srv (''/events/booking/'' @ token @ ''/manage/'') no_config"
| "ApiClient_events srv (events_manageBooking token data) =
     api_post srv (''/events/booking/'' @ token @ ''/manage/'') data no_config"
| "ApiClient_events srv (events_addAttendee bookingId data) =
     api_post srv (''/events/bookings/'' @ bookingId @ ''/attendees/add/'') data no_config"
| "ApiClient_events srv (events_removeAttendee bookingId attendeeId) =
     api_post srv (''/events/bookings/'' @ bookingId @ ''/attendees/'' @ attendeeId @ ''/remove/'') JUndefined no_config"
| "ApiClient_events srv (events_getBookingAnalytics params) =
     api_get srv ''/events/analytics/'' (no_config\<lparr>cfg_params := params\<rparr>)"
| "ApiClient_events srv (events_getBookingAuditLogs bookingId) =
     api_get srv (''/events/bookings/'' @ bookingId @ ''/audit/'') no_config"

text \<open>\<open>ApiClient.availability\<close>\<close>

datatype availability_call =
    availability_getRules
  | availability_createRule js_value
  | availability_getRule string
  | availability_updateRule string js_value
  | availability_deleteRule string
  | availability_getOverrides
  | availability_createOverride js_value
  | availability_getOverride string
  | availability_updateOverride string js_value
  | availability_deleteOverride string
  | availability_getBlockedTimes
  | availability_createBlockedTime js_value
  | availability_getBlockedTime string
  | availability_updateBlockedTime string js_value
  | availability_deleteBlockedTime string
  | availability_getRecurringBlocks
  | availability_createRecurringBlock js_value
  | availability_getRecurringBlock string
  | availability_updateRecurringBlock string js_value
  | availability_deleteRecurringBlock string
  | availability_getBufferSettings
  | availability_updateBufferSettings js_value
  | availability_getCalculatedSlots string js_value
  | availability_getStats
  | availability_clearCache
  | availability_precomputeCache js_value

fun ApiClient_availability :: "server \<Rightarrow> availability_call \<Rightarrow> world \<Rightarrow> http_response promise \<times> world" where
  "ApiClient_availability srv availability_getRules =
     api_get srv ''/availability/rules/'' no_config"
| "ApiClient_availability srv (availability_createRule data) =
     api_post srv ''/availability/rules/'' data no_config"
| "ApiClient_availability srv (availability_getRule id') =
     api_get srv (''/availability/rules/'' @ id' @ ''/'') no_config"
| "ApiClient_availability srv (availability_updateRule id' data) =
     api_patch srv (''/availability/rules/'' @ id' @ ''/'') data no_config"
| "ApiClient_availability srv (availability_deleteRule id') =
     api_delete srv (''/availability/rules/'' @ id' @ ''/'') no_config"
| "ApiClient_availability srv availability_getOverrides =
     api_get srv ''/availability/overrides/'' no_config"
| "ApiClient_availability srv (availability_createOverride data) =
     api_post srv ''/availability/overrides/'' data no_config"
| "ApiClient_availability srv (availability_getOverride id') =
     api_get srv (''/availability/overrides/'' @ id' @ ''/'') no_config"
| "ApiClient_availability srv (availability_updateOverride id' data) =
     api_patch srv (''/availability/overrides/'' @ id' @ ''/'') data no_config"
| "ApiClient_availability srv (availability_deleteOverride id') =
     api_delete srv (''/availability/overrides/'' @ id' @ ''/'') no_config"
| "ApiClient_availability srv availability_getBlockedTimes =
     api_get srv ''/availability/blocked/'' no_config"
| "ApiClient_availability srv (availability_createBlockedTime data) =
     api_post srv ''/availability/blocked/'' data no_config"
| "ApiClient_availability srv (availability_getBlockedTime id') =
     api_get srv (''/availability/blocked/'' @ id' @ ''/'') no_config"
| "ApiClient_availability srv (availability_updateBlockedTime id' data) =
     api_patch srv (''/availability/blocked/'' @ id' @ ''/'') data no_config"
| "ApiClient_availability srv (availability_deleteBlockedTime id') =
     api_delete srv (''/availability/blocked/'' @ id' @ ''/'') no_config"
| "ApiClient_availability srv availability_getRecurringBlocks =
     api_get srv ''/availability/recurring-blocks/'' no_config"
| "ApiClient_availability srv (availability_createRecurringBlock data) =
     api_post srv ''/availability/recurring-blocks/'' data no_config"
| "ApiClient_availability srv (availability_getRecurringBlock id') =
     api_get srv (''/availability/recurring-blocks/'' @ id' @ ''/'') no_config"
| "ApiClient_availability srv (availability_updateRecurringBlock id' data) =
     api_patch srv (''/availability/recurring-blocks/'' @ id' @ ''/'') data no_config"
| "ApiClient_availability srv (availability_deleteRecurringBlock id') =
     api_delete srv (''/availability/recurring-blocks/'' @ id' @ ''/'') no_config"
| "ApiClient_availability srv availability_getBufferSettings =
     api_get srv ''/availability/buffer/'' no_config"
| "ApiClient_availability srv (availability_updateBufferSettings data) =
     api_patch srv ''/availability/buffer/'' data no_config"
| "ApiClient_availability srv (availability_getCalculatedSlots organizerSlug params) =
     api_get srv (''/availability/calculated-slots/'' @ organizerSlug @ ''/'') (no_config\<lparr>cfg_params := params\<rparr>)"
| "ApiClient_availability srv availability_getStats =
     api_get srv ''/availability/stats/'' no_config"
| "ApiClient_availability srv availability_clearCache =
     api_post srv ''/availability/cache/clear/'' JUndefined no_config"
| "ApiClient_availability srv (availability_precomputeCache data) =
     api_post srv ''/availability/cache/precompute/'' data no_config"

text \<open>\<open>ApiClient.integrations\<close>\<close>

datatype integrations_call =
    integrations_getCalendarIntegrations
  | integrations_getCalendarIntegration string
  | integrations_updateCalendarIntegration string js_value
  | integrations_deleteCalendarIntegration string
  | integrations_refreshCalendarSync string
  | integrations_forceCalendarSync string
  | integrations_getVideoIntegrations
  | integrations_getVideoIntegration string
  | integrations_updateVideoIntegration string js_value
  | integrations_deleteVideoIntegration string
  | integrations_getWebhooks
  | integrations_createWebhook js_value
  | integrations_getWebhook string
  | integrations_updateWebhook string js_value
  | integrations_deleteWebhook string
  | integrations_testWebhook string
  | integrations_initiateOauth js_value
  | integrations_oauthCallback js_value
  | integrations_getIntegrationHealth
  | integrations_getIntegrationLogs
  | integrations_getCalendarConflicts

fun ApiClient_integrations :: "server \<Rightarrow> integrations_call \<Rightarrow> world \<Rightarrow> http_response promise \<times> world" where
  "ApiClient_integrations srv integrations_getCalendarIntegrations =
     api_get srv ''/integrations/calendar/'' no_config"
| "ApiClient_integrations srv (integrations_getCalendarIntegration id') =
     api_get srv (''/integrations/calendar/'' @ id' @ ''/'') no_config"
| "ApiClient_integrations srv (integrations_updateCalendarIntegration id' data) =
     api_patch srv (''/integrations/calendar/'' @ id' @ ''/'') data no_config"
| "ApiClient_integrations srv (integrations_deleteCalendarIntegration id') =
     api_delete srv (''/integrations/calendar/'' @ id' @ ''/'') no_config"
| "ApiClient_integrations srv (integrations_refreshCalendarSync id') =
     api_post srv (''/integrations/calendar/'' @ id' @ ''/refresh/'') JUndefined no_config"
| "ApiClient_integrations srv (integrations_forceCalendarSync id') =
     api_post srv (''/integrations/calendar/'' @ id' @ ''/force-sync/'') JUndefined no_config"
| "ApiClient_integrations srv integrations_getVideoIntegrations =
     api_get srv ''/integrations/video/'' no_config"
| "ApiClient_integrations srv (integrations_getVideoIntegration id') =
     api_get srv (''/integrations/video/'' @ id' @ ''/'') no_config"
| "ApiClient_integrations srv (integrations_updateVideoIntegration id' data) =
     api_patch srv (''/integrations/video/'' @ id' @ ''/'') data no_config"
| "ApiClient_integrations srv (integrations_deleteVideoIntegration id') =
     api_delete srv (''/integrations/video/'' @ id' @ ''/'') no_config"
| "ApiClient_integrations srv integrations_getWebhooks =
     api_get srv ''/integrations/webhooks/'' no_config"
| "ApiClient_integrations srv (integrations_createWebhook data) =
     api_post srv ''/integrations/webhooks/'' data no_config"
| "ApiClient_integrations srv (integrations_getWebhook id') =
     api_get srv (''/integrations/webhooks/'' @ id' @ ''/'') no_config"
| "ApiClient_integrations srv (integrations_updateWebhook id' data) =
     api_patch srv (''/integrations/webhooks/'' @ id' @ ''/'') data no_config"
| "ApiClient_integrations srv (integrations_deleteWebhook id') =
     api_delete srv (''/integrations/webhooks/'' @ id' @ ''/'') no_config"
| "ApiClient_integrations srv (integrations_testWebhook id') =
     api_post srv (''/integrations/webhooks/'' @ id' @ ''/test/'') JUndefined no_config"
| "ApiClient_integrations srv (integrations_initiateOauth data) =
     api_post srv ''/integrations/oauth/initiate/'' data no_config"
| "ApiClient_integrations srv (integrations_oauthCallback data) =
     api_post srv ''/integrations/oauth/callback/'' data no_config"
| "ApiClient_integrations srv integrations_getIntegrationHealth =
     api_get srv ''/integrations/health/'' no_config"
| "ApiClient_integrations srv integrations_getIntegrationLogs =
     api_get srv ''/integrations/logs/'' no_config"
| "ApiClient_integrations srv integrations_getCalendarConflicts =
     api_get srv ''/integrations/calendar/conflicts/'' no_config"

text \<open>\<open>ApiClient.workflows\<close>\<close>

datatype workflows_call =
    workflows_getWorkflows
  | workflows_createWorkflow js_value
  | workflows_getWorkflow string
  | workflows_updateWorkflow string js_value
  | workflows_deleteWorkflow string
  | workflows_duplicateWorkflow string
  | workflows_getWorkflowActions string
  | workflows_createWorkflowAction string js_value
  | workflows_getWorkflowAction string
  | workflows_updateWorkflowAction string js_value
  | workflows_deleteWorkflowAction string
  | workflows_testWorkflow string js_value
  | workflows_validateWorkflow string
  | workflows_getExecutionSummary string
  | workflows_getExecutions
  | workflows_getTemplates
  | workflows_createFromTemplate js_value
  | workflows_bulkTest js_value
  | workflows_getPerformanceStats

fun ApiClient_workflows :: "server \<Rightarrow> workflows_call \<Rightarrow> world \<Rightarrow> http_response promise \<times> world" where
  "ApiClient_workflows srv workflows_getWorkflows =
     api_get srv ''/workflows/'' no_config"
| "ApiClient_workflows srv (workflows_createWorkflow data) =
     api_post srv ''/workflows/'' data no_config"
| "ApiClient_workflows srv (workflows_getWorkflow id') =
     api_get srv (''/workflows/'' @ id' @ ''/'') no_config"
| "ApiClient_workflows srv (workflows_updateWorkflow id' data) =
     api_patch srv (''/workflows/'' @ id' @ ''/'') data no_config"
| "ApiClient_workflows srv (workflows_deleteWorkflow id') =
     api_delete srv (''/workflows/'' @ id' @ ''/'') no_config"
| "ApiClient_workflows srv (workflows_duplicateWorkflow id') =
     api_post srv (''/workflows/'' @ id' @ ''/duplicate/'') JUndefined no_config"
| "ApiClient_workflows srv (workflows_getWorkflowActions workflowId) =
     api_get srv (''/workflows/'' @ workflowId @ ''/actions/'') no_config"
| "ApiClient_workflows srv (workflows_createWorkflowAction workflowId data) =
     api_post srv (''/workflows/'' @ workflowId @ ''/actions/'') data no_config"
| "ApiClient_workflows srv (workflows_getWorkflowAction id') =
     api_get srv (''/workflows/actions/'' @ id' @ ''/'') no_config"
| "ApiClient_workflows srv (workflows_updateWorkflowAction id' data) =
     api_patch srv (''/workflows/actions/'' @ id' @ ''/'') data no_config"
| "ApiClient_workflows srv (workflows_deleteWorkflowAction id') =
     api_delete srv (''/workflows/actions/'' @ id' @ ''/'') no_config"
| "ApiClient_workflows srv (workflows_testWorkflow id' data) =
     api_post srv (''/workflows/'' @ id' @ ''/test/'') data no_config"
| "ApiClient_workflows srv (workflows_validateWorkflow id') =
     api_post srv (''/workflows/'' @ id' @ ''/validate/'') JUndefined no_config"
| "ApiClient_workflows srv (workflows_getExecutionSummary id') =
     api_get srv (''/workflows/'' @ id' @ ''/execution-summary/'') no_config"
| "ApiClient_workflows srv workflows_getExecutions =
     api_get srv ''/workflows/executions/'' no_config"
| "ApiClient_workflows srv workflows_getTemplates =
     api_get srv ''/workflows/templates/'' no_config"
| "ApiClient_workflows srv (workflows_createFromTemplate data) =
     api_post srv ''/workflows/templates/create-from/'' data no_config"
| "ApiClient_workflows srv (workflows_bulkTest data) =
     api_post srv ''/workflows/bulk-test/'' data no_config"
| "ApiClient_workflows srv workflows_getPerformanceStats =
     api_get srv ''/workflows/performance-stats/'' no_config"

text \<open>\<open>ApiClient.notifications\<close>\<close>

datatype notifications_call =
    notifications_getTemplates
  | notifications_createTemplate js_value
  | notifications_getTemplate string
  | notifications_updateTemplate string js_value
  | notifications_deleteTemplate string
  | notifications_testTemplate string
  | notifications_getPreferences
  | notifications_updatePreferences js_value
  | notifications_getLogs
  | notifications_resendNotification string
  | notifications_getScheduled
  | notifications_cancelScheduled string
  | notifications_sendNotification js_value
  | notifications_getStats
  | notifications_getHealth

fun ApiClient_notifications :: "server \<Rightarrow> notifications_call \<Rightarrow> world \<Rightarrow> http_response promise \<times> world" where
  "ApiClient_notifications srv notifications_getTemplates =
     api_get srv ''/notifications/templates/'' no_config"
| "ApiClient_notifications srv (notifications_createTemplate data) =
     api_post srv ''/notifications/templates/'' data no_config"
| "ApiClient_notifications srv (notifications_getTemplate id') =
     api_get srv (''/notifications/templates/'' @ id' @ ''/'') no_config"
| "ApiClient_notifications srv (notifications_updateTemplate id' data) =
     api_patch srv (''/notifications/templates/'' @ id' @ ''/'') data no_config"
| "ApiClient_notifications srv (notifications_deleteTemplate id') =
     api_delete srv (''/notifications/templates/'' @ id' @ ''/'') no_config"
| "ApiClient_notifications srv (notifications_testTemplate id') =
     api_post srv (''/notifications/templates/'' @ id' @ ''/test/'') JUndefined no_config"
| "ApiClient_notifications srv notifications_getPreferences =
     api_get srv ''/notifications/preferences/'' no_config"
| "ApiClient_notifications srv (notifications_updatePreferences data) =
     api_patch srv ''/notifications/preferences/'' data no_config"
| "ApiClient_notifications srv notifications_getLogs =
     api_get srv ''/notifications/logs/'' no_config"
| "ApiClient_notifications srv (notifications_resendNotification id') =
     api_post srv (''/notifications/'' @ id' @ ''/resend/'') JUndefined no_config"
| "ApiClient_notifications srv notifications_getScheduled =
     api_get srv ''/notifications/scheduled/'' no_config"
| "ApiClient_notifications srv (notifications_cancelScheduled id') =
     api_post srv (''/notifications/scheduled/'' @ id' @ ''/cancel/'') JUndefined no_config"
| "ApiClient_notifications srv (notifications_sendNotification data) =
     api_post srv ''/notifications/send/'' data no_config"
| "ApiClient_notifications srv notifications_getStats =
     api_get srv ''/notifications/stats/'' no_config"
| "ApiClient_notifications srv notifications_getHealth =
     api_get srv ''/notifications/health/'' no_config"

text \<open>\<open>ApiClient.contacts\<close>\<close>

datatype contacts_call =
    contacts_getContacts js_value
  | contacts_createContact js_value
  | contacts_getContact string
  | contacts_updateContact string js_value
  | contacts_deleteContact string
  | contacts_getContactInteractions string
  | contacts_addContactInteraction string js_value
  | contacts_getGroups
  | contacts_createGroup js_value
  | contacts_getGroup string
  | contacts_updateGroup string js_value
  | contacts_deleteGroup string
  | contacts_addContactToGroup string string
  | contacts_removeContactFromGroup string string
  | contacts_importContacts js_value
  | contacts_exportContacts
  | contacts_mergeContacts js_value
  | contacts_getStats

fun ApiClient_contacts :: "server \<Rightarrow> contacts_call \<Rightarrow> world \<Rightarrow> http_response promise \<times> world" where
  "ApiClient_contacts srv (contacts_getContacts params) =
     api_get srv ''/contacts/'' (no_config\<lparr>cfg_params := params\<rparr>)"
| "ApiClient_contacts srv (contacts_createContact data) =
     api_post srv ''/contacts/'' data no_config"
| "ApiClient_contacts srv (contacts_getContact id') =
     api_get srv (''/contacts/'' @ id' @ ''/'') no_config"
| "ApiClient_contacts srv (contacts_updateContact id' data) =
     api_patch srv (''/contacts/'' @ id' @ ''/'') data no_config"
| "ApiClient_contacts srv (contacts_deleteContact id') =
     api_delete srv (''/contacts/'' @ id' @ ''/'') no_config"
| "ApiClient_contacts srv (contacts_getContactInteractions contactId) =
     api_get srv (''/contacts/'' @ contactId @ ''/interactions/'') no_config"
| "ApiClient_contacts srv (contacts_addContactInteraction contactId data) =
     api_post srv (''/contacts/'' @ contactId @ ''/interactions/add/'') data no_config"
| "ApiClient_contacts srv contacts_getGroups =
     api_get srv ''/contacts/groups/'' no_config"
| "ApiClient_contacts srv (contacts_createGroup data) =
     api_post srv ''/contacts/groups/'' data no_config"
| "ApiClient_contacts srv (contacts_getGroup id') =
     api_get srv (''/contacts/groups/'' @ id' @ ''/'') no_config"
| "ApiClient_contacts srv (contacts_updateGroup id' data) =
     api_patch srv (''/contacts/groups/'' @ id' @ ''/'') data no_config"
| "ApiClient_contacts srv (contacts_deleteGroup id') =
     api_delete srv (''/contacts/groups/'' @ id' @ ''/'') no_config"
| "ApiClient_contacts srv (contacts_addContactToGroup contactId groupId) =
     api_post srv (''/contacts/'' @ contactId @ ''/groups/'' @ groupId @ ''/add/'') JUndefined no_config"
| "ApiClient_contacts srv (contacts_removeContactFromGroup contactId groupId) =
     api_post srv (''/contacts/'' @ contactId @ ''/groups/'' @ groupId @ ''/remove/'') JUndefined no_config"
| "ApiClient_contacts srv (contacts_importContacts data) =
     api_post srv ''/contacts/import/'' data (no_config\<lparr>cfg_headers := [(''Content-Type'', ''multipart/form-data'')]\<rparr>)"
| "ApiClient_contacts srv contacts_exportContacts =
     api_get srv ''/contacts/export/'' (no_config\<lparr>cfg_responseType := Some ''blob''\<rparr>)"
| "ApiClient_contacts srv (contacts_mergeContacts data) =
     api_post srv ''/contacts/merge/'' data no_config"
| "ApiClient_contacts srv contacts_getStats =
     api_get srv ''/contacts/stats/'' no_config"

datatype api_call =
    Auth auth_call
  | Users users_call
  | Events events_call
  | Availability availability_call
  | Integrations integrations_call
  | Workflows workflows_call
  | Notifications notifications_call
  | Contacts contacts_call

fun ApiClient :: "server \<Rightarrow> api_call \<Rightarrow> world \<Rightarrow> http_response promise \<times> world" where
  "ApiClient srv (Auth c) = ApiClient_auth srv c"
| "ApiClient srv (Users c) = ApiClient_users srv c"
| "ApiClient srv (Events c) = ApiClient_events srv c"
| "ApiClient srv (Availability c) = ApiClient_availability srv c"
| "ApiClient srv (Integrations c) = ApiClient_integrations srv c"
| "ApiClient srv (Workflows c) = ApiClient_workflows srv c"
| "ApiClient srv (Notifications c) = ApiClient_notifications srv c"
| "ApiClient srv (Contacts c) = ApiClient_contacts srv c"

text \<open>A caller that awaits one call after the other, whatever each returns.\<close>

fun call_all :: "server \<Rightarrow> api_call list \<Rightarrow> world \<Rightarrow> world" where
  "call_all srv [] w = w"
| "call_all srv (c # cs) w = call_all srv cs (snd (ApiClient srv c w))"

section \<open>The home page\<close>

text \<open>The element tree a component returns: an element with its tag, its attributes and
  its children, or a text node. A boolean attribute such as \<open>asChild\<close> has the value
  \<open>true\<close>.\<close>

datatype jsx = El string "(string \<times> string) list" "jsx list" | Txt string

fun elements_by_tag :: "string \<Rightarrow> jsx \<Rightarrow> jsx list" where
  "elements_by_tag tag (Txt s) = []"
| "elements_by_tag tag (El t attrs children) =
     (if t = tag then [El t attrs children] else [])
     @ concat (map (elements_by_tag tag) children)"

fun text_content :: "jsx \<Rightarrow> string" where
  "text_content (Txt s) = s"
| "text_content (El t attrs children) = concat (map text_content children)"

fun attribute :: "string \<Rightarrow> jsx \<Rightarrow> string option" where
  "attribute name (Txt s) = None"
| "attribute name (El t attrs children) = map_of attrs name"

text \<open>The bullet character of the feature lists, in UTF-8.\<close>

definition bullet :: string where
  "bullet = [CHR 0xE2, CHR 0x80, CHR 0xA2]"

definition HomePage :: jsx where
  "HomePage =
   El ''div'' [(''className'', ''min-h-screen bg-gradient-to-br from-enterprise-50 to-enterprise-100'')]
    [El ''div'' [(''className'', ''container mx-auto px-4 py-16'')]
      [El ''div'' [(''className'', ''text-center space-y-8'')]
        [El ''div'' [(''className'', ''space-y-4'')]
          [El ''h1'' [(''className'', ''text-display-2xl text-enterprise-900'')]
             [Txt ''Enterprise Scheduling Platform''],
           El ''p'' [(''className'', ''text-xl text-enterprise-600 max-w-2xl mx-auto'')]
             [Txt (''Professional scheduling and calendar management for enterprise teams. ''
                 @ ''Streamline your meetings with advanced automation and integrations.'')]],
         El ''div'' [(''className'', ''flex flex-col sm:flex-row gap-4 justify-center'')]
          [El ''Button'' [(''asChild'', ''true''), (''size'', ''lg''), (''variant'', ''enterprise'')]
             [El ''Link'' [(''href'', ''/login'')] [Txt ''Sign In'']],
           El ''Button''
             [(''asChild'', ''true''), (''size'', ''lg''), (''variant'', ''enterprise-outline'')]
             [El ''Link'' [(''href'', ''/signup'')] [Txt ''Get Started'']]]],
       El ''div'' [(''className'', ''mt-16 grid grid-cols-1 md:grid-cols-3 gap-8'')]
        [
         El ''Card'' [(''className'', ''enterprise-shadow'')]
           [El ''CardHeader'' []
              [El ''CardTitle'' [(''className'', ''text-enterprise-800'')] [Txt ''Smart Scheduling''],
               El ''CardDescription'' []
                 [Txt ''Intelligent availability management with calendar sync and conflict resolution.'']],
            El ''CardContent'' []
              [El ''ul'' [(''className'', ''space-y-2 text-sm text-enterprise-600'')]
                [
                 El ''li'' [] [Txt (bullet @ '' Multi-calendar integration'')],
                 El ''li'' [] [Txt (bullet @ '' Timezone intelligence'')],
                 El ''li'' [] [Txt (bullet @ '' Buffer time management'')],
                 El ''li'' [] [Txt (bullet @ '' Recurring availability rules'')]]]],
         El ''Card'' [(''className'', ''enterprise-shadow'')]
           [El ''CardHeader'' []
              [El ''CardTitle'' [(''className'', ''text-enterprise-800'')] [Txt ''Enterprise Security''],
               El ''CardDescription'' []
                 [Txt ''Advanced security features including SSO, MFA, and comprehensive audit trails.'']],
            El ''CardContent'' []
              [El ''ul'' [(''className'', ''space-y-2 text-sm text-enterprise-600'')]
                [
                 El ''li'' [] [Txt (bullet @ '' SAML & OIDC SSO'')],
                 El ''li'' [] [Txt (bullet @ '' Multi-factor authentication'')],
                 El ''li'' [] [Txt (bullet @ '' Role-based access control'')],
                 El ''li'' [] [Txt (bullet @ '' Complete audit logging'')]]]],
         El ''Card'' [(''className'', ''enterprise-shadow'')]
           [El ''CardHeader'' []
              [El ''CardTitle'' [(''className'', ''text-enterprise-800'')] [Txt ''Workflow Automation''],
               El ''CardDescription'' []
                 [Txt ''Powerful automation engine for notifications, follow-ups, and custom workflows.'']],
            El ''CardContent'' []
              [El ''ul'' [(''className'', ''space-y-2 text-sm text-enterprise-600'')]
                [
                 El ''li'' [] [Txt (bullet @ '' Custom workflow builder'')],
                 El ''li'' [] [Txt (bullet @ '' Email & SMS automation'')],
                 El ''li'' [] [Txt (bullet @ '' Webhook integrations'')],
                 El ''li'' [] [Txt (bullet @ '' Conditional logic'')]]]]]]]"

text \<open>What the end-to-end tests look at: the top-level heading, and the links with their
  target and label.\<close>

definition headings :: "jsx \<Rightarrow> string list" where
  "headings page = map text_content (elements_by_tag ''h1'' page)"

definition links :: "jsx \<Rightarrow> (string option \<times> string) list" where
  "links page = map (\<lambda>e. (attribute ''href'' e, text_content e)) (elements_by_tag ''Link'' page)"

text \<open>\<open>page.getByRole('link', { name: /.../i })\<close>: the links whose label contains the
  pattern, compared without regard to case.\<close>

definition lower_char :: "char \<Rightarrow> char" where
  "lower_char c =
     (case map_of (zip ''ABCDEFGHIJKLMNOPQRSTUVWXYZ'' ''abcdefghijklmnopqrstuvwxyz'') c of
        Some l \<Rightarrow> l
      | None \<Rightarrow> c)"

definition lower :: "string \<Rightarrow> string" where
  "lower s = map lower_char s"

fun starts_with :: "string \<Rightarrow> string \<Rightarrow> bool" where
  "starts_with s [] = True"
| "starts_with [] (p # ps) = False"
| "starts_with (c # cs) (p # ps) = (c = p \<and> starts_with cs ps)"

fun contains :: "string \<Rightarrow> string \<Rightarrow> bool" where
  "contains [] p = (p = [])"
| "contains (c # cs) p = (starts_with (c # cs) p \<or> contains cs p)"

definition getByRole_link :: "string \<Rightarrow> jsx \<Rightarrow> (string option \<times> string) list" where
  "getByRole_link name page =
     filter (\<lambda>(href, label). contains (lower label) (lower name)) (links page)"

text \<open>Clicking the located link: the locator has to match exactly one link, and the
  browser then goes to that link's target.\<close>

definition click_link :: "string \<Rightarrow> jsx \<Rightarrow> string option" where
  "click_link name page =
     (case getByRole_link name page of
        [(href, label)] \<Rightarrow> href
      | _ \<Rightarrow> None)"

section \<open>AuthProvider\<close>

definition AUTH_TOKEN :: string where
  "AUTH_TOKEN = ''auth_token''"

definition USER_DATA :: string where
  "USER_DATA = ''user_data''"

text \<open>
  Modelled from the spec: \<open>setStorageItem\<close> and \<open>removeStorageItem\<close> of
  \<open>@/lib/utils\<close> are not under src/. Going by their names and by the spec's "local
  state is a disposable cache", they write and remove one key of \<open>localStorage\<close>.
\<close>

definition setStorageItem :: "string \<Rightarrow> string \<Rightarrow> world \<Rightarrow> world" where
  "setStorageItem key v w = w\<lparr>localStorage := (localStorage w)(key \<mapsto> v)\<rparr>"

definition removeStorageItem :: "string \<Rightarrow> world \<Rightarrow> world" where
  "removeStorageItem key w = w\<lparr>localStorage := (localStorage w)(key := None)\<rparr>"

definition router_push :: "string \<Rightarrow> world \<Rightarrow> world" where
  "router_push path w = w\<lparr>pushes := pushes w @ [path]\<rparr>"

definition console_error :: "string \<Rightarrow> world \<Rightarrow> world" where
  "console_error label w = w\<lparr>console := console w @ [label]\<rparr>"

definition show_toast :: "toast \<Rightarrow> world \<Rightarrow> world" where
  "show_toast t w = w\<lparr>toasts := toasts w @ [t]\<rparr>"

text \<open>\<open>const { user: userData, token } = response.data\<close> throws a TypeError when
  \<open>response.data\<close> is \<open>null\<close> or \<open>undefined\<close>; so does reading a property of
  \<open>userData\<close> when that is \<open>null\<close> or \<open>undefined\<close>.\<close>

definition nullish :: "js_value \<Rightarrow> bool" where
  "nullish v = (v = JUndefined \<or> v = JNull)"

definition login ::
    "runtime \<Rightarrow> server \<Rightarrow> js_value \<Rightarrow> js_value \<Rightarrow> js_value \<Rightarrow> world
      \<Rightarrow> unit promise \<times> world" where
  "login rt srv email password rememberMe w =
     (let (tried, w') =
        (case ApiClient_auth srv
                (auth_login (JObj [(''email'', email), (''password'', password),
                                   (''remember_me'', rememberMe)])) w of
           (Rejected e, w1) \<Rightarrow> (Rejected e, w1)
         | (Resolved response, w1) \<Rightarrow>
             if nullish (resp_data response) then
               (Rejected (TypeError ''Cannot destructure property of response.data''), w1)
             else
               (let userData = opt_prop (resp_data response) ''user'';
                    token = opt_prop (resp_data response) ''token'';
                    w2 = setStorageItem AUTH_TOKEN (to_String rt token) w1;
                    w3 = setStorageItem USER_DATA (JSON_stringify rt userData) w2;
                    w4 = w3\<lparr>user := userData\<rparr>
                in if nullish userData then
                     (Rejected (TypeError ''Cannot read properties of userData''), w4)
                   else if opt_prop userData ''account_status'' = JStr ''pending_verification'' then
                     (Resolved (), router_push ''/verify-email'' w4)
                   else if opt_prop userData ''account_status''
                             = JStr ''password_expired_grace_period'' then
                     (Resolved (), router_push ''/force-password-change'' w4)
                   else (Resolved (), router_push ''/dashboard'' w4)))
      in case tried of
           Resolved u \<Rightarrow> (Resolved u, w')
         | Rejected e \<Rightarrow>
             (Rejected e,
              if error_code e = JStr ''password_expired'' then router_push ''/reset-password'' w'
              else w'))"

definition logout :: "server \<Rightarrow> world \<Rightarrow> unit promise \<times> world" where
  "logout srv w =
     (let (tried, w1) = ApiClient_auth srv auth_logout w;
          w2 = (case tried of
                  Resolved r \<Rightarrow> w1
                | Rejected e \<Rightarrow> console_error ''Logout error:'' w1);
          w3 = removeStorageItem AUTH_TOKEN w2;
          w4 = removeStorageItem USER_DATA w3;
          w5 = w4\<lparr>user := JNull\<rparr>;
          w6 = router_push ''/login'' w5
      in (Resolved (), w6))"

definition register :: "runtime \<Rightarrow> server \<Rightarrow> js_value \<Rightarrow> world \<Rightarrow> unit promise \<times> world" where
  "register rt srv data w =
     (case ApiClient_auth srv (auth_register data) w of
        (Rejected e, w1) \<Rightarrow> (Rejected e, w1)
      | (Resolved response, w1) \<Rightarrow>
          if nullish (resp_data response) then
            (Rejected (TypeError ''Cannot destructure property of response.data''), w1)
          else
            (let userData = opt_prop (resp_data response) ''user'';
                 token = opt_prop (resp_data response) ''token'';
                 w2 = setStorageItem AUTH_TOKEN (to_String rt token) w1;
                 w3 = setStorageItem USER_DATA (JSON_stringify rt userData) w2;
                 w4 = w3\<lparr>user := userData\<rparr>
             in (Resolved (), router_push ''/verify-email'' w4)))"

definition updateUser :: "runtime \<Rightarrow> js_value \<Rightarrow> world \<Rightarrow> world" where
  "updateUser rt userData w =
     (if truthy (user w) then
        (let updatedUser = spread2 (user w) userData;
             w1 = w\<lparr>user := updatedUser\<rparr>
         in setStorageItem USER_DATA (JSON_stringify rt updatedUser) w1)
      else w)"

definition refreshUser :: "runtime \<Rightarrow> server \<Rightarrow> world \<Rightarrow> unit promise \<times> world" where
  "refreshUser rt srv w =
     (case ApiClient_users srv users_getProfile w of
        (Resolved response, w1) \<Rightarrow>
          (let userData = resp_data response;
               w2 = w1\<lparr>user := userData\<rparr>
           in (Resolved (), setStorageItem USER_DATA (JSON_stringify rt userData) w2))
      | (Rejected e, w1) \<Rightarrow>
          (let w2 = console_error ''Error refreshing user data:'' w1;
               w3 = (if error_status e = Some 401 then snd (logout srv w2) else w2)
           in (Rejected e, w3)))"

section \<open>Form components\<close>

text \<open>
  What a form awaits on submit comes from a hook or from its props, so it is a parameter
  of the handler: a function that takes its argument and the world and gives the settled
  promise together with the world it leaves behind. An optional callback prop that throws
  is a callback whose result is \<open>Rejected\<close>.
\<close>

type_synonym ('a, 'r) async = "'a \<Rightarrow> world \<Rightarrow> 'r promise \<times> world"

text \<open>\<open>callback?.(x)\<close>\<close>

definition call_optional :: "('a, unit) async option \<Rightarrow> ('a, unit) async" where
  "call_optional callback x w =
     (case callback of
        None \<Rightarrow> (Resolved (), w)
      | Some f \<Rightarrow> f x w)"

text \<open>
  The state the forms keep with \<open>useState\<close>. Records extend each other where
  components share state variables; the toggles that show or hide a password input play no
  part in a submit and are left out.
\<close>

record loading_state =
  isLoading :: bool
  error :: "string option"

record form_state = loading_state +
  fieldErrors :: "string \<rightharpoonup> string list"

text \<open>
  A submit handler is one \<open>try { ... } catch (err) { ... } finally { ... }\<close> statement
  over the component state and the world. The \<open>try\<close> block either completes (also by
  an early \<open>return\<close>) or throws, with the state reached by then; the \<open>catch\<close>
  blocks of the forms do not throw themselves.
\<close>

definition try_catch_finally ::
    "('f \<times> world \<Rightarrow> unit promise \<times> 'f \<times> world) \<Rightarrow> (js_error \<Rightarrow> 'f \<times> world \<Rightarrow> 'f \<times> world)
      \<Rightarrow> ('f \<times> world \<Rightarrow> 'f \<times> world) \<Rightarrow> 'f \<times> world \<Rightarrow> 'f \<times> world" where
  "try_catch_finally try_block catch_block finally_block fw =
     (case try_block fw of
        (Resolved u, f1, w1) \<Rightarrow> finally_block (f1, w1)
      | (Rejected err, f1, w1) \<Rightarrow> finally_block (catch_block err (f1, w1)))"

text \<open>The \<open>finally\<close> block of every submit handler: \<open>setIsLoading(false)\<close>.\<close>

definition stop_loading :: "('a loading_state_scheme) \<times> world \<Rightarrow> ('a loading_state_scheme) \<times> world" where
  "stop_loading = (\<lambda>(f, w). (f\<lparr>isLoading := False\<rparr>, w))"

text \<open>
  The \<open>catch\<close> blocks differ between the forms in the title of the toast only. The
  forms that keep field errors run
  \<open>setError(getErrorMessage(err)); setFieldErrors(getFieldErrors(err)); toast({ title,
  description: errorMessage, variant: 'destructive' })\<close>, the others the same without the
  field errors.
\<close>

definition catch_fields ::
    "runtime \<Rightarrow> string \<Rightarrow> js_error \<Rightarrow> ('a form_state_scheme) \<times> world
      \<Rightarrow> ('a form_state_scheme) \<times> world" where
  "catch_fields rt toast_title err = (\<lambda>(f, w).
     (let errorMessage = getErrorMessage rt err;
          fieldErrs = getFieldErrors rt err
      in (f\<lparr>error := Some errorMessage, fieldErrors := fieldErrs\<rparr>,
          show_toast \<lparr>title = toast_title, description = errorMessage,
            variant = destructive\<rparr> w)))"

definition catch_message ::
    "runtime \<Rightarrow> string \<Rightarrow> js_error \<Rightarrow> ('a loading_state_scheme) \<times> world
      \<Rightarrow> ('a loading_state_scheme) \<times> world" where
  "catch_message rt toast_title err = (\<lambda>(f, w).
     (let errorMessage = getErrorMessage rt err
      in (f\<lparr>error := Some errorMessage\<rparr>,
          show_toast \<lparr>title = toast_title, description = errorMessage,
            variant = destructive\<rparr> w)))"


subsection \<open>SignupForm\<close>

definition SignupForm_try ::
    "(js_value, unit) async \<Rightarrow> js_value \<Rightarrow> form_state \<times> world
      \<Rightarrow> unit promise \<times> form_state \<times> world" where
  "SignupForm_try registerUser data = (\<lambda>(f, w).
     (let f1 = f\<lparr>error := None, fieldErrors := Map.empty, isLoading := True\<rparr>
      in case registerUser data w of
           (Rejected err, w1) \<Rightarrow> (Rejected err, f1, w1)
         | (Resolved u, w1) \<Rightarrow>
             (Resolved (), f1,
              show_toast \<lparr>title = ''Account created!'',
                description = ''Please check your email to verify your account.'',
                variant = success\<rparr> w1)))"

definition SignupForm_onSubmit ::
    "runtime \<Rightarrow> (js_value, unit) async \<Rightarrow> js_value \<Rightarrow> form_state \<times> world
      \<Rightarrow> form_state \<times> world" where
  "SignupForm_onSubmit rt registerUser data =
     try_catch_finally (SignupForm_try registerUser data)
       (catch_fields rt ''Registration failed'') stop_loading"


subsection \<open>ForcePasswordChangeForm\<close>

definition ForcePasswordChangeForm_try ::
    "(js_value, unit) async \<Rightarrow> js_value \<Rightarrow> form_state \<times> world
      \<Rightarrow> unit promise \<times> form_state \<times> world" where
  "ForcePasswordChangeForm_try forcePasswordChange data = (\<lambda>(f, w).
     (let f1 = f\<lparr>error := None, fieldErrors := Map.empty, isLoading := True\<rparr>
      in case forcePasswordChange data w of
           (Rejected err, w1) \<Rightarrow> (Rejected err, f1, w1)
         | (Resolved u, w1) \<Rightarrow>
             (Resolved (), f1,
              show_toast \<lparr>title = ''Password updated'',
                description = ''Your password has been successfully updated. ''
                  @ ''Your account is now active.'',
                variant = success\<rparr> w1)))"

definition ForcePasswordChangeForm_onSubmit ::
    "runtime \<Rightarrow> (js_value, unit) async \<Rightarrow> js_value \<Rightarrow> form_state \<times> world
      \<Rightarrow> form_state \<times> world" where
  "ForcePasswordChangeForm_onSubmit rt forcePasswordChange data =
     try_catch_finally (ForcePasswordChangeForm_try forcePasswordChange data)
       (catch_fields rt ''Password change failed'') stop_loading"


subsection \<open>ChangePasswordForm\<close>

text \<open>After a successful change the handler calls \<open>reset()\<close> of the form library, which
  empties the inputs and touches none of the state variables.\<close>

definition ChangePasswordForm_try ::
    "(js_value, unit) async \<Rightarrow> js_value \<Rightarrow> form_state \<times> world
      \<Rightarrow> unit promise \<times> form_state \<times> world" where
  "ChangePasswordForm_try changePassword data = (\<lambda>(f, w).
     (let f1 = f\<lparr>error := None, fieldErrors := Map.empty, isLoading := True\<rparr>
      in case changePassword data w of
           (Rejected err, w1) \<Rightarrow> (Rejected err, f1, w1)
         | (Resolved u, w1) \<Rightarrow>
             (Resolved (), f1,
              show_toast \<lparr>title = ''Password changed'',
                description = ''Your password has been successfully updated.'',
                variant = success\<rparr> w1)))"

definition ChangePasswordForm_onSubmit ::
    "runtime \<Rightarrow> (js_value, unit) async \<Rightarrow> js_value \<Rightarrow> form_state \<times> world
      \<Rightarrow> form_state \<times> world" where
  "ChangePasswordForm_onSubmit rt changePassword data =
     try_catch_finally (ChangePasswordForm_try changePassword data)
       (catch_fields rt ''Password change failed'') stop_loading"

subsection \<open>ResetPasswordForm\<close>

record success_form = form_state +
  isSuccess :: bool

definition ResetPasswordForm_try ::
    "(js_value, unit) async \<Rightarrow> js_value \<Rightarrow> success_form \<times> world
      \<Rightarrow> unit promise \<times> success_form \<times> world" where
  "ResetPasswordForm_try confirmPasswordReset data = (\<lambda>(f, w).
     (let f1 = f\<lparr>error := None, fieldErrors := Map.empty, isLoading := True\<rparr>
      in case confirmPasswordReset data w of
           (Rejected err, w1) \<Rightarrow> (Rejected err, f1, w1)
         | (Resolved u, w1) \<Rightarrow>
             (Resolved (), f1\<lparr>isSuccess := True\<rparr>,
              show_toast \<lparr>title = ''Password reset successful'',
                description = ''Your password has been reset. ''
                  @ ''You can now sign in with your new password.'',
                variant = success\<rparr> w1)))"

definition ResetPasswordForm_onSubmit ::
    "runtime \<Rightarrow> (js_value, unit) async \<Rightarrow> js_value \<Rightarrow> success_form \<times> world
      \<Rightarrow> success_form \<times> world" where
  "ResetPasswordForm_onSubmit rt confirmPasswordReset data =
     try_catch_finally (ResetPasswordForm_try confirmPasswordReset data)
       (catch_fields rt ''Reset failed'') stop_loading"

subsection \<open>ForgotPasswordForm\<close>

record forgot_form = loading_state +
  isSubmitted :: bool

definition ForgotPasswordForm_try ::
    "(js_value, unit) async \<Rightarrow> js_value \<Rightarrow> forgot_form \<times> world
      \<Rightarrow> unit promise \<times> forgot_form \<times> world" where
  "ForgotPasswordForm_try requestReset data = (\<lambda>(f, w).
     (let f1 = f\<lparr>error := None, isLoading := True\<rparr>
      in case requestReset (opt_prop data ''email'') w of
           (Rejected err, w1) \<Rightarrow> (Rejected err, f1, w1)
         | (Resolved u, w1) \<Rightarrow>
             (Resolved (), f1\<lparr>isSubmitted := True\<rparr>,
              show_toast \<lparr>title = ''Reset link sent'',
                description = ''If an account with that email exists, ''
                  @ ''a password reset link has been sent.'',
                variant = success\<rparr> w1)))"

definition ForgotPasswordForm_onSubmit ::
    "runtime \<Rightarrow> (js_value, unit) async \<Rightarrow> js_value \<Rightarrow> forgot_form \<times> world
      \<Rightarrow> forgot_form \<times> world" where
  "ForgotPasswordForm_onSubmit rt requestReset data =
     try_catch_finally (ForgotPasswordForm_try requestReset data)
       (catch_message rt ''Request failed'') stop_loading"

subsection \<open>LoginForm\<close>

record login_form = loading_state +
  ssoLoading :: bool
  showMfaStep :: bool
  mfaUserData :: js_value

text \<open>The inner \<open>try\<close> returns early when the backend asks for the second factor and
  rethrows everything else to the outer \<open>catch\<close>, which sets the error message and shows
  a toast for two error codes only.\<close>

definition LoginForm_try ::
    "(js_value, unit) async \<Rightarrow> js_value \<Rightarrow> login_form \<times> world
      \<Rightarrow> unit promise \<times> login_form \<times> world" where
  "LoginForm_try login' data = (\<lambda>(f, w).
     (let f1 = f\<lparr>error := None, isLoading := True\<rparr>
      in case login' data w of
           (Resolved u, w1) \<Rightarrow>
             (Resolved (), f1,
              show_toast \<lparr>title = ''Welcome back!'',
                description = ''You have been successfully logged in.'',
                variant = success\<rparr> w1)
         | (Rejected loginError, w1) \<Rightarrow>
             if error_code loginError = JStr ''mfa_required'' then
               (let devices = (case error_response loginError of
                                 None \<Rightarrow> JUndefined
                               | Some r \<Rightarrow> opt_prop (resp_data r) ''mfa_devices'')
                in (Resolved (),
                    f1\<lparr>mfaUserData :=
                          JObj [(''email'', opt_prop data ''email''),
                                (''mfa_devices'', if truthy devices then devices else JArr [])],
                        showMfaStep := True\<rparr>,
                    w1))
             else (Rejected loginError, f1, w1)))"

definition LoginForm_catch ::
    "runtime \<Rightarrow> js_error \<Rightarrow> login_form \<times> world \<Rightarrow> login_form \<times> world" where
  "LoginForm_catch rt err = (\<lambda>(f, w).
     (let errorMessage = getErrorMessage rt err;
          f1 = f\<lparr>error := Some errorMessage\<rparr>
      in if error_code err = JStr ''password_expired'' then
           (f1, show_toast \<lparr>title = ''Password Expired'',
                  description = ''Your password has expired. ''
                    @ ''Please check your email for reset instructions.'',
                  variant = warning\<rparr> w)
         else if error_code err = JStr ''account_locked'' then
           (f1, show_toast \<lparr>title = ''Account Locked'',
                  description = ''Your account has been temporarily locked ''
                    @ ''due to multiple failed login attempts.'',
                  variant = destructive\<rparr> w)
         else (f1, w)))"

definition LoginForm_onSubmit ::
    "runtime \<Rightarrow> (js_value, unit) async \<Rightarrow> js_value \<Rightarrow> login_form \<times> world
      \<Rightarrow> login_form \<times> world" where
  "LoginForm_onSubmit rt login' data =
     try_catch_finally (LoginForm_try login' data) (LoginForm_catch rt) stop_loading"


subsection \<open>ProfileForm\<close>

record profile_form = form_state +
  profileImage :: "js_value option"
  previewUrl :: "string option"

text \<open>
  The handler fills a \<open>FormData\<close> object that nothing reads afterwards: the call of
  \<open>ApiClient.users.updateProfile(formData)\<close> is commented out ("For now, simulate
  success"). What remains is the merge of the form data into the profile, the optional
  \<open>onUpdate\<close> callback and \<open>updateUser\<close> of the auth hook.
\<close>

definition ProfileForm_try ::
    "js_value \<Rightarrow> (js_value, unit) async option \<Rightarrow> (js_value \<Rightarrow> world \<Rightarrow> world) \<Rightarrow> js_value
      \<Rightarrow> profile_form \<times> world \<Rightarrow> unit promise \<times> profile_form \<times> world" where
  "ProfileForm_try profile onUpdate updateUser' data = (\<lambda>(f, w).
     (let f1 = f\<lparr>error := None, fieldErrors := Map.empty, isLoading := True\<rparr>;
          updatedProfile = spread2 profile data
      in case call_optional onUpdate updatedProfile w of
           (Rejected err, w1) \<Rightarrow> (Rejected err, f1, w1)
         | (Resolved u, w1) \<Rightarrow>
             (Resolved (), f1,
              show_toast \<lparr>title = ''Profile updated'',
                description = ''Your profile has been successfully updated.'',
                variant = success\<rparr>
                (updateUser' (JObj [(''profile'', updatedProfile)]) w1))))"

definition ProfileForm_onSubmit ::
    "runtime \<Rightarrow> js_value \<Rightarrow> (js_value, unit) async option \<Rightarrow> (js_value \<Rightarrow> world \<Rightarrow> world)
      \<Rightarrow> js_value \<Rightarrow> profile_form \<times> world \<Rightarrow> profile_form \<times> world" where
  "ProfileForm_onSubmit rt profile onUpdate updateUser' data =
     try_catch_finally (ProfileForm_try profile onUpdate updateUser' data)
       (catch_fields rt ''Update failed'') stop_loading"

subsection \<open>SAMLConfigurationForm\<close>

record sso_form = form_state +
  isTesting :: bool

text \<open>\<open>await onSave?.(data)\<close>: without the prop nothing happens and the submit
  succeeds. The title of the success toast depends on whether a configuration is being
  edited.\<close>

definition SAMLConfigurationForm_try ::
    "js_value \<Rightarrow> (js_value, unit) async option \<Rightarrow> js_value \<Rightarrow> sso_form \<times> world
      \<Rightarrow> unit promise \<times> sso_form \<times> world" where
  "SAMLConfigurationForm_try config onSave data = (\<lambda>(f, w).
     (let f1 = f\<lparr>error := None, fieldErrors := Map.empty, isLoading := True\<rparr>
      in case call_optional onSave data w of
           (Rejected err, w1) \<Rightarrow> (Rejected err, f1, w1)
         | (Resolved u, w1) \<Rightarrow>
             (Resolved (), f1,
              show_toast \<lparr>title = (if truthy config then ''SAML configuration updated''
                                   else ''SAML configuration created''),
                description = ''The SAML configuration has been successfully saved.'',
                variant = success\<rparr> w1)))"

definition SAMLConfigurationForm_onSubmit ::
    "runtime \<Rightarrow> js_value \<Rightarrow> (js_value, unit) async option \<Rightarrow> js_value \<Rightarrow> sso_form \<times> world
      \<Rightarrow> sso_form \<times> world" where
  "SAMLConfigurationForm_onSubmit rt config onSave data =
     try_catch_finally (SAMLConfigurationForm_try config onSave data)
       (catch_fields rt ''Save failed'') stop_loading"

subsection \<open>OIDCConfigurationForm\<close>

text \<open>The component's state: the submit state, the test flag, the scope list with the
  text being typed, and the \<open>scopes\<close> value of the form.\<close>

record oidc_form = sso_form +
  customScopes :: "string list"
  newScope :: string
  form_scopes :: "string list"

text \<open>\<open>useState(config?.scopes || ['openid', 'email', 'profile'])\<close> and the form's
  default value for \<open>scopes\<close>.\<close>

definition default_scopes :: "string list" where
  "default_scopes = [''openid'', ''email'', ''profile'']"

definition init_scopes :: "string list option \<Rightarrow> oidc_form" where
  "init_scopes config_scopes =
     (let initial = (case config_scopes of Some xs \<Rightarrow> xs | None \<Rightarrow> default_scopes)
      in \<lparr>isLoading = False, error = None, fieldErrors = Map.empty, isTesting = False,
          customScopes = initial, newScope = [], form_scopes = initial\<rparr>)"

definition addScope :: "oidc_form \<Rightarrow> oidc_form" where
  "addScope s =
     (if newScope s \<noteq> [] \<and> newScope s \<notin> set (customScopes s) then
        (let updatedScopes = customScopes s @ [newScope s]
         in s\<lparr>customScopes := updatedScopes, form_scopes := updatedScopes, newScope := []\<rparr>)
      else s)"

definition removeScope :: "string \<Rightarrow> oidc_form \<Rightarrow> oidc_form" where
  "removeScope scope s =
     (let updatedScopes = filter (\<lambda>x. x \<noteq> scope) (customScopes s)
      in s\<lparr>customScopes := updatedScopes, form_scopes := updatedScopes\<rparr>)"

text \<open>The three user actions on the scope editor: typing into the input
  (\<open>setNewScope(e.target.value)\<close>), the add button, and the remove button of a badge.\<close>

datatype scope_event = TypeScope string | AddScope | RemoveScope string

fun scope_step :: "oidc_form \<Rightarrow> scope_event \<Rightarrow> oidc_form" where
  "scope_step s (TypeScope v) = s\<lparr>newScope := v\<rparr>"
| "scope_step s AddScope = addScope s"
| "scope_step s (RemoveScope x) = removeScope x s"

definition scope_run :: "oidc_form \<Rightarrow> scope_event list \<Rightarrow> oidc_form" where
  "scope_run s evs = foldl scope_step s evs"

definition OIDCConfigurationForm_try ::
    "js_value \<Rightarrow> (js_value, unit) async option \<Rightarrow> js_value \<Rightarrow> oidc_form \<times> world
      \<Rightarrow> unit promise \<times> oidc_form \<times> world" where
  "OIDCConfigurationForm_try config onSave data = (\<lambda>(f, w).
     (let f1 = f\<lparr>error := None, fieldErrors := Map.empty, isLoading := True\<rparr>
      in case call_optional onSave data w of
           (Rejected err, w1) \<Rightarrow> (Rejected err, f1, w1)
         | (Resolved u, w1) \<Rightarrow>
             (Resolved (), f1,
              show_toast \<lparr>title = (if truthy config then ''OIDC configuration updated''
                                   else ''OIDC configuration created''),
                description = ''The OIDC configuration has been successfully saved.'',
                variant = success\<rparr> w1)))"

definition OIDCConfigurationForm_onSubmit ::
    "runtime \<Rightarrow> js_value \<Rightarrow> (js_value, unit) async option \<Rightarrow> js_value \<Rightarrow> oidc_form \<times> world
      \<Rightarrow> oidc_form \<times> world" where
  "OIDCConfigurationForm_onSubmit rt config onSave data =
     try_catch_finally (OIDCConfigurationForm_try config onSave data)
       (catch_fields rt ''Save failed'') stop_loading"


subsection \<open>DisableMFAForm\<close>

definition DisableMFAForm_try ::
    "(js_value, unit) async \<Rightarrow> (unit, unit) async option \<Rightarrow> js_value
      \<Rightarrow> loading_state \<times> world \<Rightarrow> unit promise \<times> loading_state \<times> world" where
  "DisableMFAForm_try disableMfa onSuccess data = (\<lambda>(f, w).
     (let f1 = f\<lparr>error := None, isLoading := True\<rparr>
      in case disableMfa data w of
           (Rejected err, w1) \<Rightarrow> (Rejected err, f1, w1)
         | (Resolved u, w1) \<Rightarrow>
             (let w2 = show_toast \<lparr>title = ''MFA disabled'',
                         description = ''Multi-factor authentication has been disabled ''
                           @ ''for your account.'',
                         variant = success\<rparr> w1
              in case call_optional onSuccess () w2 of
                   (Rejected err, w3) \<Rightarrow> (Rejected err, f1, w3)
                 | (Resolved u', w3) \<Rightarrow> (Resolved (), f1, w3))))"

definition DisableMFAForm_onSubmit ::
    "runtime \<Rightarrow> (js_value, unit) async \<Rightarrow> (unit, unit) async option \<Rightarrow> js_value
      \<Rightarrow> loading_state \<times> world \<Rightarrow> loading_state \<times> world" where
  "DisableMFAForm_onSubmit rt disableMfa onSuccess data =
     try_catch_finally (DisableMFAForm_try disableMfa onSuccess data)
       (catch_message rt ''Failed to disable MFA'') stop_loading"

subsection \<open>RegenerateBackupCodesForm\<close>

record codes_form = loading_state +
  backupCodes :: js_value

record regenerate_form = codes_form +
  showCodes :: bool

text \<open>Reading \<open>response.backup_codes\<close> throws when the hook resolved with
  \<open>null\<close> or \<open>undefined\<close>.\<close>

definition RegenerateBackupCodesForm_try ::
    "(js_value, js_value) async \<Rightarrow> (js_value, unit) async option \<Rightarrow> js_value
      \<Rightarrow> regenerate_form \<times> world \<Rightarrow> unit promise \<times> regenerate_form \<times> world" where
  "RegenerateBackupCodesForm_try regenerateBackupCodes onSuccess data = (\<lambda>(f, w).
     (let f1 = f\<lparr>error := None, isLoading := True\<rparr>
      in case regenerateBackupCodes data w of
           (Rejected err, w1) \<Rightarrow> (Rejected err, f1, w1)
         | (Resolved response, w1) \<Rightarrow>
             if nullish response then
               (Rejected (TypeError ''Cannot read properties of response''), f1, w1)
             else
               (let f2 = f1\<lparr>backupCodes := opt_prop response ''backup_codes'',
                             showCodes := True\<rparr>;
                    w2 = show_toast \<lparr>title = ''Backup codes regenerated'',
                           description = ''New backup codes have been generated. ''
                             @ ''Please save them securely.'',
                           variant = success\<rparr> w1
                in case call_optional onSuccess (opt_prop response ''backup_codes'') w2 of
                     (Rejected err, w3) \<Rightarrow> (Rejected err, f2, w3)
                   | (Resolved u, w3) \<Rightarrow> (Resolved (), f2, w3))))"

definition RegenerateBackupCodesForm_onSubmit ::
    "runtime \<Rightarrow> (js_value, js_value) async \<Rightarrow> (js_value, unit) async option \<Rightarrow> js_value
      \<Rightarrow> regenerate_form \<times> world \<Rightarrow> regenerate_form \<times> world" where
  "RegenerateBackupCodesForm_onSubmit rt regenerateBackupCodes onSuccess data =
     try_catch_finally (RegenerateBackupCodesForm_try regenerateBackupCodes onSuccess data)
       (catch_message rt ''Failed to regenerate codes'') stop_loading"

subsection \<open>MFAEnrollmentWizard\<close>

datatype setup_step =
  device_selection | totp_setup | sms_setup | verification | backup_codes | complete

record wizard = codes_form +
  currentStep :: setup_step
  setupData :: js_value
  totpData :: js_value

definition MFAEnrollmentWizard_handleDeviceSelection_try ::
    "(js_value, js_value) async \<Rightarrow> js_value \<Rightarrow> wizard \<times> world
      \<Rightarrow> unit promise \<times> wizard \<times> world" where
  "MFAEnrollmentWizard_handleDeviceSelection_try setupMfa data = (\<lambda>(f, w).
     (let f1 = f\<lparr>error := None, isLoading := True, setupData := data\<rparr>
      in case setupMfa data w of
           (Rejected err, w1) \<Rightarrow> (Rejected err, f1, w1)
         | (Resolved response, w1) \<Rightarrow>
             (let f2 = (if opt_prop data ''device_type'' = JStr ''totp''
                        then f1\<lparr>totpData := response, currentStep := totp_setup\<rparr>
                        else f1\<lparr>currentStep := sms_setup\<rparr>)
              in (Resolved (), f2,
                  show_toast \<lparr>title = ''MFA setup initiated'',
                    description = (if opt_prop data ''device_type'' = JStr ''totp''
                                   then ''TOTP'' else ''SMS'') @ '' setup started'',
                    variant = success\<rparr> w1))))"

definition MFAEnrollmentWizard_handleDeviceSelection ::
    "runtime \<Rightarrow> (js_value, js_value) async \<Rightarrow> js_value \<Rightarrow> wizard \<times> world \<Rightarrow> wizard \<times> world" where
  "MFAEnrollmentWizard_handleDeviceSelection rt setupMfa data =
     try_catch_finally (MFAEnrollmentWizard_handleDeviceSelection_try setupMfa data)
       (catch_message rt ''Setup failed'') stop_loading"

definition MFAEnrollmentWizard_handleVerification_try ::
    "(js_value, js_value) async \<Rightarrow> js_value \<Rightarrow> wizard \<times> world
      \<Rightarrow> unit promise \<times> wizard \<times> world" where
  "MFAEnrollmentWizard_handleVerification_try verifyMfa data = (\<lambda>(f, w).
     (let f1 = f\<lparr>error := None, isLoading := True\<rparr>
      in case verifyMfa data w of
           (Rejected err, w1) \<Rightarrow> (Rejected err, f1, w1)
         | (Resolved response, w1) \<Rightarrow>
             if nullish response then
               (Rejected (TypeError ''Cannot read properties of response''), f1, w1)
             else
               (let f2 = (if truthy (opt_prop response ''backup_codes'')
                          then f1\<lparr>backupCodes := opt_prop response ''backup_codes'',
                                  currentStep := backup_codes\<rparr>
                          else f1\<lparr>currentStep := complete\<rparr>)
                in (Resolved (), f2,
                    show_toast \<lparr>title = ''MFA enabled'',
                      description = ''Multi-factor authentication has been ''
                        @ ''successfully enabled.'',
                      variant = success\<rparr> w1))))"

definition MFAEnrollmentWizard_handleVerification ::
    "runtime \<Rightarrow> (js_value, js_value) async \<Rightarrow> js_value \<Rightarrow> wizard \<times> world \<Rightarrow> wizard \<times> world" where
  "MFAEnrollmentWizard_handleVerification rt verifyMfa data =
     try_catch_finally (MFAEnrollmentWizard_handleVerification_try verifyMfa data)
       (catch_message rt ''Verification failed'') stop_loading"

subsection \<open>MFALoginStep\<close>

datatype mfa_method = totp | sms | backup

record mfa_login_form = loading_state +
  selectedMethod :: mfa_method
  smsCodeSent :: bool

definition MFALoginStep_try ::
    "(js_value, js_value) async \<Rightarrow> (unit, unit) async \<Rightarrow> js_value
      \<Rightarrow> mfa_login_form \<times> world \<Rightarrow> unit promise \<times> mfa_login_form \<times> world" where
  "MFALoginStep_try verifyMfa onSuccess data = (\<lambda>(f, w).
     (let f1 = f\<lparr>error := None, isLoading := True\<rparr>
      in case verifyMfa data w of
           (Rejected err, w1) \<Rightarrow> (Rejected err, f1, w1)
         | (Resolved response, w1) \<Rightarrow>
             (case onSuccess () w1 of
                (Rejected err, w2) \<Rightarrow> (Rejected err, f1, w2)
              | (Resolved u, w2) \<Rightarrow>
                  (Resolved (), f1,
                   show_toast \<lparr>title = ''Login successful'',
                     description = ''You have been successfully authenticated.'',
                     variant = success\<rparr> w2))))"

definition MFALoginStep_onSubmit ::
    "runtime \<Rightarrow> (js_value, js_value) async \<Rightarrow> (unit, unit) async \<Rightarrow> js_value
      \<Rightarrow> mfa_login_form \<times> world \<Rightarrow> mfa_login_form \<times> world" where
  "MFALoginStep_onSubmit rt verifyMfa onSuccess data =
     try_catch_finally (MFALoginStep_try verifyMfa onSuccess data)
       (catch_message rt ''Verification failed'') stop_loading"

subsection \<open>InvitationResponseForm\<close>

record invitation_form = success_form +
  isDeclined :: bool
  needsRegistration :: bool

definition InvitationResponseForm_try ::
    "(js_value, js_value) async \<Rightarrow> (unit, unit) async option \<Rightarrow> js_value
      \<Rightarrow> invitation_form \<times> world \<Rightarrow> unit promise \<times> invitation_form \<times> world" where
  "InvitationResponseForm_try respondToInvitation onSuccess data = (\<lambda>(f, w).
     (let f1 = f\<lparr>error := None, fieldErrors := Map.empty, isLoading := True\<rparr>
      in if opt_prop data ''action'' = JStr ''decline'' then
           (case respondToInvitation data w of
              (Rejected err, w1) \<Rightarrow> (Rejected err, f1, w1)
            | (Resolved response, w1) \<Rightarrow>
                (Resolved (), f1\<lparr>isDeclined := True\<rparr>,
                 show_toast \<lparr>title = ''Invitation declined'',
                   description = ''You have declined the team invitation.'',
                   variant = info\<rparr> w1))
         else
           (case respondToInvitation data w of
              (Rejected err, w1) \<Rightarrow> (Rejected err, f1, w1)
            | (Resolved response, w1) \<Rightarrow>
                (let f2 = f1\<lparr>isSuccess := True\<rparr>;
                     w2 = show_toast \<lparr>title = ''Welcome to the team!'',
                            description = ''You have successfully joined the organization.'',
                            variant = success\<rparr> w1
                 in case call_optional onSuccess () w2 of
                      (Rejected err, w3) \<Rightarrow> (Rejected err, f2, w3)
                    | (Resolved u, w3) \<Rightarrow> (Resolved (), f2, w3)))))"

text \<open>The \<open>catch\<close> block returns before anything is shown when the backend reports
  that the invited user has no account yet.\<close>

definition InvitationResponseForm_catch ::
    "runtime \<Rightarrow> js_error \<Rightarrow> invitation_form \<times> world \<Rightarrow> invitation_form \<times> world" where
  "InvitationResponseForm_catch rt err = (\<lambda>(f, w).
     (let errorMessage = getErrorMessage rt err;
          fieldErrs = getFieldErrors rt err
      in if error_code err = JStr ''user_not_found'' then
           (f\<lparr>needsRegistration := True\<rparr>, w)
         else
           (f\<lparr>error := Some errorMessage, fieldErrors := fieldErrs\<rparr>,
            show_toast \<lparr>title = ''Response failed'', description = errorMessage,
              variant = destructive\<rparr> w)))"

definition InvitationResponseForm_onSubmit ::
    "runtime \<Rightarrow> (js_value, js_value) async \<Rightarrow> (unit, unit) async option \<Rightarrow> js_value
      \<Rightarrow> invitation_form \<times> world \<Rightarrow> invitation_form \<times> world" where
  "InvitationResponseForm_onSubmit rt respondToInvitation onSuccess data =
     try_catch_finally (InvitationResponseForm_try respondToInvitation onSuccess data)
       (InvitationResponseForm_catch rt) stop_loading"

subsection \<open>Inputs with an inline message, for the other forms that keep field errors\<close>






subsection \<open>The inline messages a form renders\<close>










section \<open>Displaying slots\<close>

text \<open>
  Modelled from the spec: no component under src/ shows bookable slots. The spec says that
  slot computation is delegated entirely to the backend endpoints and that the frontend
  "passes parameters and renders the returned list"; what is displayed is therefore the
  list in the body of the backend's answer, and nothing when the call fails.
\<close>

definition displayed_slots :: "http_response promise \<Rightarrow> js_value list" where
  "displayed_slots answer =
     (case answer of
        Resolved r \<Rightarrow> (case resp_data r of JArr slots \<Rightarrow> slots | _ \<Rightarrow> [])
      | Rejected e \<Rightarrow> [])"

section \<open>Sample states used to instantiate the results\<close>

text \<open>A browser tab with nothing stored and nobody logged in.\<close>

definition browser0 :: world where
  "browser0 = \<lparr>has_window = True, localStorage = Map.empty, location_href = ''/'',
      sent = [], console = [], user = JNull, pushes = [], toasts = []\<rparr>"

text \<open>
  A concrete runtime for the library and helper functions that are parameters of the
  model; the results hold for every runtime, and this one only serves to instantiate them.
  The serialiser writes strings without escapes. The two error helpers read the backend's
  error body (\<open>message\<close>, \<open>field_errors\<close>) as the \<open>ApiError\<close> type declares it.
\<close>

definition digit :: "nat \<Rightarrow> char" where
  "digit n = ''0123456789'' ! n"

function show_nat :: "nat \<Rightarrow> string" where
  "show_nat n = (if n < 10 then [digit n] else show_nat (n div 10) @ [digit (n mod 10)])"
  by pat_completeness auto
termination
  by (relation "measure id") auto

definition show_int :: "int \<Rightarrow> string" where
  "show_int i = (if i < 0 then ''-'' @ show_nat (nat (- i)) else show_nat (nat i))"

fun join :: "string \<Rightarrow> string list \<Rightarrow> string" where
  "join sep [] = []"
| "join sep [x] = x"
| "join sep (x # y # ys) = x @ sep @ join sep (y # ys)"

definition quote :: "string \<Rightarrow> string" where
  "quote s = [CHR 0x22] @ s @ [CHR 0x22]"

fun sample_stringify :: "js_value \<Rightarrow> string" where
  "sample_stringify JUndefined = ''undefined''"
| "sample_stringify JNull = ''null''"
| "sample_stringify (JBool b) = (if b then ''true'' else ''false'')"
| "sample_stringify (JNum n) = show_int n"
| "sample_stringify (JStr s) = quote s"
| "sample_stringify (JArr xs) = ''['' @ join '','' (map sample_stringify xs) @ '']''"
| "sample_stringify (JObj kvs) =
     ''{'' @ join '','' (map (\<lambda>(k, v). quote k @ '':'' @ sample_stringify v) kvs) @ ''}''"


fun sample_to_String :: "js_value \<Rightarrow> string" where
  "sample_to_String (JStr s) = s"
| "sample_to_String v = sample_stringify v"

fun js_strings :: "js_value \<Rightarrow> string list" where
  "js_strings (JArr xs) = concat (map (\<lambda>x. case x of JStr s \<Rightarrow> [s] | _ \<Rightarrow> []) xs)"
| "js_strings v = []"

definition sample_getErrorMessage :: "js_error \<Rightarrow> string" where
  "sample_getErrorMessage e =
     (case error_response e of
        None \<Rightarrow> ''Network error. Please check your connection and try again.''
      | Some r \<Rightarrow>
          (case opt_prop (resp_data r) ''message'' of
             JStr m \<Rightarrow> m
           | _ \<Rightarrow> ''Server error. Please try again later.''))"

definition sample_getFieldErrors :: "js_error \<Rightarrow> (string \<rightharpoonup> string list)" where
  "sample_getFieldErrors e =
     (case error_response e of
        None \<Rightarrow> Map.empty
      | Some r \<Rightarrow>
          map_of (map (\<lambda>(k, v). (k, js_strings v))
                    (own_props (opt_prop (resp_data r) ''field_errors''))))"

definition sample_runtime :: runtime where
  "sample_runtime =
     \<lparr>JSON_stringify = sample_stringify, to_String = sample_to_String,
      getErrorMessage = sample_getErrorMessage, getFieldErrors = sample_getFieldErrors\<rparr>"

text \<open>Backends that never answer, or that answer every request alike.\<close>

definition backend_down :: server where
  "backend_down = (\<lambda>n req. None)"

definition backend_replies :: "nat \<Rightarrow> js_value \<Rightarrow> server" where
  "backend_replies code body = (\<lambda>n req. Some \<lparr>status = code, resp_data = body\<rparr>)"

text \<open>A tab in which a user is logged in.\<close>

definition sample_user :: js_value where
  "sample_user = JObj [(''id'', JStr ''u1''), (''email'', JStr ''ada@example.com'')]"

definition logged_in :: world where
  "logged_in =
     browser0\<lparr>localStorage := [''auth_token'' \<mapsto> ''t0k3n'',
                                ''user_data'' \<mapsto> sample_stringify sample_user],
              user := sample_user\<rparr>"

text \<open>A form that has not been submitted yet, and what a visitor typed into the signup form.\<close>

definition form_state0 :: form_state where
  "form_state0 = \<lparr>isLoading = False, error = None, fieldErrors = Map.empty\<rparr>"

definition signup_data :: js_value where
  "signup_data = JObj [(''email'', JStr ''ada@example.com''), (''first_name'', JStr ''Ada''),
     (''last_name'', JStr ''Lovelace''), (''password'', JStr ''Abcdef1!''),
     (''password_confirm'', JStr ''Abcdef1!''), (''terms_accepted'', JBool True)]"





text \<open>A fresh profile form, a stored profile, what the user typed into the profile form,
  and the body of a successful registration.\<close>

definition profile_form0 :: profile_form where
  "profile_form0 = \<lparr>isLoading = False, error = None, fieldErrors = Map.empty,
     profileImage = None, previewUrl = None\<rparr>"

definition sample_profile :: js_value where
  "sample_profile = JObj [(''display_name'', JStr ''Ada''), (''timezone_name'', JStr ''UTC'')]"

definition profile_data :: js_value where
  "profile_data = JObj [(''display_name'', JStr ''Ada L.''), (''bio'', JStr ''Analyst'')]"

definition registered :: js_value where
  "registered = JObj [(''user'', sample_user), (''token'', JStr ''t0k3n'')]"

text \<open>Two slots as a backend may return them, and the query of a slot request.\<close>

definition two_slots :: js_value where
  "two_slots = JArr [JObj [(''start'', JStr ''2025-01-06T09:00:00Z'')],
                     JObj [(''start'', JStr ''2025-01-06T09:30:00Z'')]]"

definition slot_params :: js_value where
  "slot_params = JObj [(''date'', JStr ''2025-01-06''), (''timezone'', JStr ''UTC'')]"

section \<open>Properties\<close>

subsection \<open>Password strength\<close>

lemma getPasswordStrength_le_5: "getPasswordStrength p \<le> 5"
  by (simp add: getPasswordStrength_def Let_def)

lemma accepted_checks:
  assumes "password_accepted p"
  shows "length p \<ge> 8" "re_test re_upper p" "re_test re_lower p"
        "re_test re_digit p" "re_test re_special p"
  using assms by (auto simp: password_accepted_def signupSchema_password_def split: if_splits)

lemma accepted_strength: "password_accepted p \<Longrightarrow> getPasswordStrength p = 5"
  by (simp add: getPasswordStrength_def Let_def accepted_checks)

text \<open>
  Claim C9. Every password accepted by the password chain of the signup schema (at least
  8 code units, an uppercase letter, a lowercase letter, a digit and a special character)
  gets the maximum score 5 from \<open>getPasswordStrength\<close> and is therefore labelled
  Strong; and for every string whatsoever the score is an integer between 0 and 5.
\<close>

theorem schema_valid_password_is_strong:
  "(password_accepted p \<longrightarrow>
      getPasswordStrength p = 5 \<and> strength_label (passwordStrength (Some p)) = ''Strong'')
   \<and> 0 \<le> getPasswordStrength q \<and> getPasswordStrength q \<le> 5"
proof -
  have "getPasswordStrength p = 5 \<and> strength_label (passwordStrength (Some p)) = ''Strong''"
    if acc: "password_accepted p"
  proof -
    have five: "getPasswordStrength p = 5" using acc by (rule accepted_strength)
    have "p \<noteq> []" using accepted_checks(1)[OF acc] by auto
    then have "passwordStrength (Some p) = 5" by (simp add: passwordStrength_def five)
    then show ?thesis using five by (simp add: strength_label_def)
  qed
  then show ?thesis using getPasswordStrength_le_5 [of q] by blast
qed

theorem schema_valid_password_is_strong_witness:
  "password_accepted (utf16 ''Abcdef1!'')
   \<and> getPasswordStrength (utf16 ''Abcdef1!'') = 5
   \<and> strength_label (passwordStrength (Some (utf16 ''Abcdef1!''))) = ''Strong''
   \<and> getPasswordStrength (utf16 ''abc'') \<le> 5"
proof -
  have acc: "password_accepted (utf16 ''Abcdef1!'')"
    by (simp add: password_accepted_def signupSchema_password_def re_test_def utf16_def
        re_upper_def re_lower_def re_digit_def re_special_def special_chars_def)
  show ?thesis
    using acc schema_valid_password_is_strong [of "utf16 ''Abcdef1!''" "utf16 ''abc''"]
    by simp
qed

subsection \<open>Scope list\<close>

lemma addScope_customScopes:
  "customScopes (addScope s) =
     (if newScope s \<noteq> [] \<and> newScope s \<notin> set (customScopes s)
      then customScopes s @ [newScope s] else customScopes s)"
  by (simp add: addScope_def Let_def)

lemma removeScope_customScopes:
  "customScopes (removeScope x s) = filter (\<lambda>y. y \<noteq> x) (customScopes s)"
  by (simp add: removeScope_def Let_def)

lemma scope_step_distinct:
  "distinct (customScopes s) \<Longrightarrow> distinct (customScopes (scope_step s ev))"
  by (cases ev) (simp_all add: addScope_customScopes removeScope_customScopes)

lemma scope_run_distinct:
  "distinct (customScopes s) \<Longrightarrow> distinct (customScopes (scope_run s evs))"
  unfolding scope_run_def
  by (induction evs arbitrary: s) (simp_all add: scope_step_distinct)

lemma filter_absent: "x \<notin> set xs \<Longrightarrow> filter (\<lambda>y. y \<noteq> x) xs = xs"
  by (induction xs) auto

text \<open>
  Claim C10. Starting from a duplicate-free scope list, the list stays duplicate-free:
  \<open>addScope\<close> appends the typed scope only when it is non-empty and not yet present,
  \<open>removeScope\<close> removes every occurrence of the given scope, both keep the list free
  of duplicates (and so does every sequence of editor actions), and removing a scope
  right after adding it, when it was absent before, gives back the original list.
\<close>

theorem scope_list_duplicate_free:
  "distinct (customScopes s) \<Longrightarrow>
     distinct (customScopes (addScope s))
   \<and> distinct (customScopes (removeScope x s))
   \<and> distinct (customScopes (scope_run s evs))
   \<and> customScopes (addScope s) =
         (if newScope s \<noteq> [] \<and> newScope s \<notin> set (customScopes s)
          then customScopes s @ [newScope s] else customScopes s)
   \<and> x \<notin> set (customScopes (removeScope x s))
   \<and> (newScope s \<notin> set (customScopes s) \<longrightarrow>
         customScopes (removeScope (newScope s) (addScope s)) = customScopes s)"
proof -
  assume d: "distinct (customScopes s)"
  have add: "distinct (customScopes (addScope s))"
    using d by (simp add: addScope_customScopes)
  have rem: "distinct (customScopes (removeScope x s))"
    using d by (simp add: removeScope_customScopes)
  have run: "distinct (customScopes (scope_run s evs))"
    using d by (rule scope_run_distinct)
  have gone: "x \<notin> set (customScopes (removeScope x s))"
    by (simp add: removeScope_customScopes)
  have undo: "customScopes (removeScope (newScope s) (addScope s)) = customScopes s"
    if absent: "newScope s \<notin> set (customScopes s)"
  proof (cases "newScope s = []")
    case True
    with absent have "[] \<notin> set (customScopes s)" by simp
    then have "filter (\<lambda>y. y \<noteq> []) (customScopes s) = customScopes s"
      by (rule filter_absent)
    with True show ?thesis
      by (simp add: removeScope_customScopes addScope_customScopes)
  next
    case False
    have "filter (\<lambda>y. y \<noteq> newScope s) (customScopes s) = customScopes s"
      using absent by (rule filter_absent)
    with False absent show ?thesis
      by (simp add: removeScope_customScopes addScope_customScopes)
  qed
  from add rem run gone undo addScope_customScopes [of s] show ?thesis
    by blast
qed

theorem scope_list_duplicate_free_witness:
  "distinct (customScopes ((init_scopes None)\<lparr>newScope := ''groups''\<rparr>))
   \<and> customScopes (addScope ((init_scopes None)\<lparr>newScope := ''groups''\<rparr>))
       = [''openid'', ''email'', ''profile'', ''groups'']
   \<and> distinct (customScopes (addScope ((init_scopes None)\<lparr>newScope := ''groups''\<rparr>)))
   \<and> customScopes (removeScope ''groups'' (addScope ((init_scopes None)\<lparr>newScope := ''groups''\<rparr>)))
       = [''openid'', ''email'', ''profile'']"
proof -
  let ?s = "(init_scopes None)\<lparr>newScope := ''groups''\<rparr>"
  have d: "distinct (customScopes ?s)"
    by (simp add: init_scopes_def default_scopes_def Let_def)
  show ?thesis
    using d scope_list_duplicate_free [OF d, of "''groups''" "[]"]
    by (simp add: init_scopes_def default_scopes_def Let_def)
qed

subsection \<open>One request per ApiClient call\<close>

lemma response_error_interceptor_sent [simp]:
  "sent (response_error_interceptor e w) = sent w"
  by (simp add: response_error_interceptor_def Let_def)

lemma axios_request_sent:
  "sent (snd (axios_request srv config w)) = sent w @ [request_interceptor w config]"
  by (simp add: axios_request_def Let_def split: option.split)

lemmas api_sent =
  api_get_def api_post_def api_patch_def api_delete_def axios_request_sent

lemma ApiClient_auth_sent:
  "\<exists>req. \<forall>srv. sent (snd (ApiClient_auth srv c w)) = sent w @ [req]"
  by (cases c) (simp_all add: api_sent)

lemma ApiClient_users_sent:
  "\<exists>req. \<forall>srv. sent (snd (ApiClient_users srv c w)) = sent w @ [req]"
  by (cases c) (simp_all add: api_sent)

lemma ApiClient_events_sent:
  "\<exists>req. \<forall>srv. sent (snd (ApiClient_events srv c w)) = sent w @ [req]"
  by (cases c) (simp_all add: api_sent)

lemma ApiClient_availability_sent:
  "\<exists>req. \<forall>srv. sent (snd (ApiClient_availability srv c w)) = sent w @ [req]"
  by (cases c) (simp_all add: api_sent)

lemma ApiClient_integrations_sent:
  "\<exists>req. \<forall>srv. sent (snd (ApiClient_integrations srv c w)) = sent w @ [req]"
  by (cases c) (simp_all add: api_sent)

lemma ApiClient_workflows_sent:
  "\<exists>req. \<forall>srv. sent (snd (ApiClient_workflows srv c w)) = sent w @ [req]"
  by (cases c) (simp_all add: api_sent)

lemma ApiClient_notifications_sent:
  "\<exists>req. \<forall>srv. sent (snd (ApiClient_notifications srv c w)) = sent w @ [req]"
  by (cases c) (simp_all add: api_sent)

lemma ApiClient_contacts_sent:
  "\<exists>req. \<forall>srv. sent (snd (ApiClient_contacts srv c w)) = sent w @ [req]"
  by (cases c) (simp_all add: api_sent)

lemma ApiClient_sent:
  "\<exists>req. \<forall>srv. sent (snd (ApiClient srv c w)) = sent w @ [req]"
  by (cases c)
    (simp_all add: ApiClient_auth_sent ApiClient_users_sent ApiClient_events_sent
      ApiClient_availability_sent ApiClient_integrations_sent ApiClient_workflows_sent
      ApiClient_notifications_sent ApiClient_contacts_sent)

lemma call_all_sent:
  "\<exists>reqs. length reqs = length cs \<and> sent (call_all srv cs w) = sent w @ reqs"
proof (induction cs arbitrary: w)
  case Nil
  show ?case by simp
next
  case (Cons c cs)
  obtain req where one: "sent (snd (ApiClient srv c w)) = sent w @ [req]"
    using ApiClient_sent [of c w] by blast
  obtain reqs where rest: "length reqs = length cs"
      "sent (call_all srv cs (snd (ApiClient srv c w))) = sent (snd (ApiClient srv c w)) @ reqs"
    using Cons.IH [of "snd (ApiClient srv c w)"] by blast
  have "length (req # reqs) = length (c # cs)" using rest(1) by simp
  moreover have "sent (call_all srv (c # cs) w) = sent w @ (req # reqs)"
    using one rest(2) by simp
  ultimately show ?case by blast
qed

text \<open>
  Claim C4. Every ApiClient method (auth, users, events, availability, integrations,
  workflows, notifications, contacts) puts exactly one request on the wire per invocation:
  the log of sent requests grows by one entry, and that entry is the same whatever the
  backend answers (success, 401, 429, 5xx, or no answer at all), so neither the client nor
  its interceptors retry. A sequence of calls leaves the earlier entries of the log
  untouched and appends one entry per call.
\<close>

theorem one_request_per_call:
  "(\<exists>req. \<forall>srv. sent (snd (ApiClient srv c w)) = sent w @ [req])
   \<and> (\<exists>reqs. length reqs = length cs \<and> sent (call_all srv cs w) = sent w @ reqs)"
  using ApiClient_sent [of c w] call_all_sent [of cs srv w] by blast

theorem one_request_per_call_witness:
  "length (sent (snd (ApiClient (\<lambda>n req. None) (Auth auth_logout) browser0))) = 1
   \<and> length (sent (snd (ApiClient (\<lambda>n req. Some \<lparr>status = 429, resp_data = JNull\<rparr>)
                 (Contacts contacts_getStats) browser0))) = 1
   \<and> length (sent (call_all (\<lambda>n req. Some \<lparr>status = 500, resp_data = JNull\<rparr>)
        [Users users_getProfile, Events (events_getBooking ''7'')] browser0)) = 2"
  using one_request_per_call [of "Auth auth_logout" browser0 "[Users users_getProfile, Events (events_getBooking ''7'')]" "\<lambda>n req. Some \<lparr>status = 500, resp_data = JNull\<rparr>"]
    one_request_per_call [of "Contacts contacts_getStats" browser0 "[]" "\<lambda>n req. None"]
  by (auto simp: browser0_def)

subsection \<open>Home page\<close>

lemma HomePage_links:
  "links HomePage = [(Some ''/login'', ''Sign In''), (Some ''/signup'', ''Get Started'')]"
  by (simp add: links_def HomePage_def)

lemma HomePage_headings: "headings HomePage = [''Enterprise Scheduling Platform'']"
  by (simp add: headings_def HomePage_def)

text \<open>
  Claim C7. The home page renders the heading "Enterprise Scheduling Platform" and exactly
  two navigation links: one to /login labelled Sign In and one to /signup labelled
  Get Started; clicking the sign-in link navigates to /login (and clicking the other one
  to /signup).
\<close>

theorem homepage_heading_and_links:
  "headings HomePage = [''Enterprise Scheduling Platform'']
   \<and> links HomePage = [(Some ''/login'', ''Sign In''), (Some ''/signup'', ''Get Started'')]
   \<and> length (links HomePage) = 2
   \<and> click_link ''sign in'' HomePage = Some ''/login''
   \<and> click_link ''get started'' HomePage = Some ''/signup''"
  by (simp add: HomePage_headings HomePage_links click_link_def getByRole_link_def
      lower_def lower_char_def)

subsection \<open>Frame properties of the helpers\<close>

lemma removeStorageItem_fields [simp]:
  "localStorage (removeStorageItem k w) = (localStorage w)(k := None)"
  "user (removeStorageItem k w) = user w"
  "pushes (removeStorageItem k w) = pushes w"
  "sent (removeStorageItem k w) = sent w"
  "toasts (removeStorageItem k w) = toasts w"
  by (simp_all add: removeStorageItem_def)

lemma router_push_fields [simp]:
  "localStorage (router_push p w) = localStorage w"
  "user (router_push p w) = user w"
  "pushes (router_push p w) = pushes w @ [p]"
  "sent (router_push p w) = sent w"
  "toasts (router_push p w) = toasts w"
  by (simp_all add: router_push_def)

lemma response_error_interceptor_frame [simp]:
  "pushes (response_error_interceptor e w) = pushes w"
  "user (response_error_interceptor e w) = user w"
  "toasts (response_error_interceptor e w) = toasts w"
  "has_window (response_error_interceptor e w) = has_window w"
  by (simp_all add: response_error_interceptor_def Let_def)

lemma axios_request_frame [simp]:
  "pushes (snd (axios_request srv c w)) = pushes w"
  "user (snd (axios_request srv c w)) = user w"
  "toasts (snd (axios_request srv c w)) = toasts w"
  "has_window (snd (axios_request srv c w)) = has_window w"
  by (simp_all add: axios_request_def Let_def split: option.split)

subsection \<open>Logout\<close>

text \<open>
  Claim C8. logout always reaches a clean logged-out state, whether the logout call
  succeeds, is rejected by the backend or gets no answer: the promise resolves, auth_token
  and user_data are gone from storage, the in-memory user is null, and the router has been
  sent to /login.
\<close>

theorem logout_always_clean:
  "fst (logout srv w) = Resolved ()
   \<and> localStorage (snd (logout srv w)) ''auth_token'' = None
   \<and> localStorage (snd (logout srv w)) ''user_data'' = None
   \<and> user (snd (logout srv w)) = JNull
   \<and> pushes (snd (logout srv w)) = pushes w @ [''/login'']"
proof -
  obtain tried w1 where call: "ApiClient_auth srv auth_logout w = (tried, w1)"
    by (cases "ApiClient_auth srv auth_logout w")
  have "w1 = snd (axios_request srv (make_request POST ''/users/logout/'' JUndefined no_config) w)"
    using call by (simp add: api_post_def)
  then have p: "pushes w1 = pushes w" by simp
  show ?thesis
    unfolding logout_def call
    using p by (cases tried) (simp_all add: AUTH_TOKEN_def USER_DATA_def console_error_def)
qed

theorem logout_always_clean_witness:
  "fst (logout backend_down logged_in) = Resolved ()
   \<and> localStorage (snd (logout backend_down logged_in)) ''auth_token'' = None
   \<and> localStorage (snd (logout (backend_replies 500 JNull) logged_in)) ''user_data'' = None
   \<and> user (snd (logout (backend_replies 200 JNull) logged_in)) = JNull
   \<and> pushes (snd (logout backend_down logged_in)) = [''/login'']"
  using logout_always_clean [of backend_down logged_in]
    logout_always_clean [of "backend_replies 500 JNull" logged_in]
    logout_always_clean [of "backend_replies 200 JNull" logged_in]
  by (simp add: logged_in_def browser0_def)

subsection \<open>The 401 handler and the loading flag\<close>

lemma ApiClient_auth_axios:
  "\<exists>config. \<forall>srv. ApiClient_auth srv c = axios_request srv config"
  by (cases c) (auto simp: api_get_def api_post_def api_patch_def api_delete_def fun_eq_iff)

lemma ApiClient_users_axios:
  "\<exists>config. \<forall>srv. ApiClient_users srv c = axios_request srv config"
  by (cases c) (auto simp: api_get_def api_post_def api_patch_def api_delete_def fun_eq_iff)

lemma ApiClient_events_axios:
  "\<exists>config. \<forall>srv. ApiClient_events srv c = axios_request srv config"
  by (cases c) (auto simp: api_get_def api_post_def api_patch_def api_delete_def fun_eq_iff)

lemma ApiClient_availability_axios:
  "\<exists>config. \<forall>srv. ApiClient_availability srv c = axios_request srv config"
  by (cases c) (auto simp: api_get_def api_post_def api_patch_def api_delete_def fun_eq_iff)

lemma ApiClient_integrations_axios:
  "\<exists>config. \<forall>srv. ApiClient_integrations srv c = axios_request srv config"
  by (cases c) (auto simp: api_get_def api_post_def api_patch_def api_delete_def fun_eq_iff)

lemma ApiClient_workflows_axios:
  "\<exists>config. \<forall>srv. ApiClient_workflows srv c = axios_request srv config"
  by (cases c) (auto simp: api_get_def api_post_def api_patch_def api_delete_def fun_eq_iff)

lemma ApiClient_notifications_axios:
  "\<exists>config. \<forall>srv. ApiClient_notifications srv c = axios_request srv config"
  by (cases c) (auto simp: api_get_def api_post_def api_patch_def api_delete_def fun_eq_iff)

lemma ApiClient_contacts_axios:
  "\<exists>config. \<forall>srv. ApiClient_contacts srv c = axios_request srv config"
  by (cases c) (auto simp: api_get_def api_post_def api_patch_def api_delete_def fun_eq_iff)

lemma ApiClient_axios:
  "\<exists>config. \<forall>srv. ApiClient srv c = axios_request srv config"
  by (cases c)
    (simp_all add: ApiClient_auth_axios ApiClient_users_axios ApiClient_events_axios
      ApiClient_availability_axios ApiClient_integrations_axios ApiClient_workflows_axios
      ApiClient_notifications_axios ApiClient_contacts_axios)

lemma axios_request_401:
  assumes "has_window w"
    and "srv (length (sent w)) (last (sent (snd (axios_request srv config w)))) = Some r"
    and "status r = 401"
  shows "fst (axios_request srv config w) = Rejected (AxiosError (Some r))"
    and "localStorage (snd (axios_request srv config w)) ''auth_token'' = None"
    and "location_href (snd (axios_request srv config w)) = ''/login''"
proof -
  have "last (sent (snd (axios_request srv config w))) = request_interceptor w config"
    by (simp add: axios_request_sent)
  with assms(2) have reply: "srv (length (sent w)) (request_interceptor w config) = Some r"
    by simp
  show "fst (axios_request srv config w) = Rejected (AxiosError (Some r))"
    using reply assms(3) by (simp add: axios_request_def Let_def)
  show "localStorage (snd (axios_request srv config w)) ''auth_token'' = None"
    using reply assms(1,3)
    by (simp add: axios_request_def Let_def response_error_interceptor_def error_status_def)
  show "location_href (snd (axios_request srv config w)) = ''/login''"
    using reply assms(1,3)
    by (simp add: axios_request_def Let_def response_error_interceptor_def error_status_def)
qed

lemma finally_stops_loading:
  "\<not> isLoading (fst (try_catch_finally try_block catch_block stop_loading fw))"
  by (simp add: try_catch_finally_def stop_loading_def split: prod.split promise.split)

text \<open>
  Claim C3. In a browser, whenever the backend answers a call of the API client with
  status 401, the response interceptor removes the stored auth_token and sets the location
  to /login before the call is rejected with that response. And every form submit handler
  ends with its loading flag cleared by the \<open>finally\<close> block, whatever the awaited call
  did and whatever error it failed with.
\<close>

theorem unauthorized_and_loading_recovery:
  "(has_window w
      \<and> srv (length (sent w)) (last (sent (snd (ApiClient srv c w)))) = Some r
      \<and> status r = 401 \<longrightarrow>
        fst (ApiClient srv c w) = Rejected (AxiosError (Some r))
      \<and> localStorage (snd (ApiClient srv c w)) ''auth_token'' = None
      \<and> location_href (snd (ApiClient srv c w)) = ''/login'')
   \<and> \<not> isLoading (fst (SignupForm_onSubmit rt act d (f1, w)))
   \<and> \<not> isLoading (fst (ForcePasswordChangeForm_onSubmit rt act d (f1, w)))
   \<and> \<not> isLoading (fst (ChangePasswordForm_onSubmit rt act d (f1, w)))
   \<and> \<not> isLoading (fst (ResetPasswordForm_onSubmit rt act d (f2, w)))
   \<and> \<not> isLoading (fst (ForgotPasswordForm_onSubmit rt act d (f3, w)))
   \<and> \<not> isLoading (fst (LoginForm_onSubmit rt act d (f4, w)))
   \<and> \<not> isLoading (fst (ProfileForm_onSubmit rt profile onUpdate upd d (f5, w)))
   \<and> \<not> isLoading (fst (SAMLConfigurationForm_onSubmit rt config onSave d (f6, w)))
   \<and> \<not> isLoading (fst (OIDCConfigurationForm_onSubmit rt config onSave d (f7, w)))
   \<and> \<not> isLoading (fst (DisableMFAForm_onSubmit rt act onDone d (f8, w)))
   \<and> \<not> isLoading (fst (RegenerateBackupCodesForm_onSubmit rt query onCodes d (f9, w)))
   \<and> \<not> isLoading (fst (MFAEnrollmentWizard_handleDeviceSelection rt query d (f10, w)))
   \<and> \<not> isLoading (fst (MFAEnrollmentWizard_handleVerification rt query d (f10, w)))
   \<and> \<not> isLoading (fst (MFALoginStep_onSubmit rt query done d (f11, w)))
   \<and> \<not> isLoading (fst (InvitationResponseForm_onSubmit rt query onDone d (f12, w)))"
proof -
  obtain cfg where cfg: "\<And>srv. ApiClient srv c = axios_request srv cfg"
    using ApiClient_axios [of c] by blast
  have "fst (ApiClient srv c w) = Rejected (AxiosError (Some r))
      \<and> localStorage (snd (ApiClient srv c w)) ''auth_token'' = None
      \<and> location_href (snd (ApiClient srv c w)) = ''/login''"
    if "has_window w" "srv (length (sent w)) (last (sent (snd (ApiClient srv c w)))) = Some r"
      "status r = 401"
    using that axios_request_401 [of w srv cfg r] by (simp add: cfg)
  then show ?thesis
    by (simp add: finally_stops_loading SignupForm_onSubmit_def
        ForcePasswordChangeForm_onSubmit_def ChangePasswordForm_onSubmit_def
        ResetPasswordForm_onSubmit_def ForgotPasswordForm_onSubmit_def LoginForm_onSubmit_def
        ProfileForm_onSubmit_def SAMLConfigurationForm_onSubmit_def
        OIDCConfigurationForm_onSubmit_def DisableMFAForm_onSubmit_def
        RegenerateBackupCodesForm_onSubmit_def MFAEnrollmentWizard_handleDeviceSelection_def
        MFAEnrollmentWizard_handleVerification_def MFALoginStep_onSubmit_def
        InvitationResponseForm_onSubmit_def)
qed

theorem unauthorized_and_loading_recovery_witness:
  "has_window logged_in
   \<and> status \<lparr>status = 401, resp_data = JNull\<rparr> = 401
   \<and> fst (ApiClient (backend_replies 401 JNull) (Users users_getProfile) logged_in)
       = Rejected (AxiosError (Some \<lparr>status = 401, resp_data = JNull\<rparr>))
   \<and> localStorage (snd (ApiClient (backend_replies 401 JNull) (Users users_getProfile) logged_in))
        ''auth_token'' = None
   \<and> location_href (snd (ApiClient (backend_replies 401 JNull) (Users users_getProfile) logged_in))
       = ''/login''
   \<and> \<not> isLoading (fst (SignupForm_onSubmit sample_runtime
          (register sample_runtime (backend_replies 401 JNull)) signup_data
          (form_state0, logged_in)))"
proof -
  have hw: "has_window logged_in" by (simp add: logged_in_def browser0_def)
  have reply: "backend_replies 401 JNull (length (sent logged_in))
       (last (sent (snd (ApiClient (backend_replies 401 JNull) (Users users_getProfile) logged_in))))
     = Some \<lparr>status = 401, resp_data = JNull\<rparr>"
    by (simp add: backend_replies_def)
  show ?thesis
    using hw reply
      unauthorized_and_loading_recovery [of logged_in "backend_replies 401 JNull"
        "Users users_getProfile" "\<lparr>status = 401, resp_data = JNull\<rparr>" sample_runtime
        "register sample_runtime (backend_replies 401 JNull)" signup_data form_state0]
    by simp
qed

subsection \<open>What a failed submit shows\<close>







subsection \<open>Backend calls of a submit\<close>

lemma show_toast_fields [simp]:
  "sent (show_toast t w) = sent w"
  "toasts (show_toast t w) = toasts w @ [t]"
  "pushes (show_toast t w) = pushes w"
  "user (show_toast t w) = user w"
  "localStorage (show_toast t w) = localStorage w"
  by (simp_all add: show_toast_def)

lemma setStorageItem_fields [simp]:
  "sent (setStorageItem k v w) = sent w"
  "toasts (setStorageItem k v w) = toasts w"
  "pushes (setStorageItem k v w) = pushes w"
  "user (setStorageItem k v w) = user w"
  "localStorage (setStorageItem k v w) = (localStorage w)(k \<mapsto> v)"
  by (simp_all add: setStorageItem_def)







lemma updateUser_fields [simp]:
  "sent (updateUser rt u w) = sent w"
  "toasts (updateUser rt u w) = toasts w"
  "pushes (updateUser rt u w) = pushes w"
  by (simp_all add: updateUser_def Let_def)




subsection \<open>Slots\<close>

lemma request_interceptor_keeps [simp]:
  "req_url (request_interceptor w c) = req_url c"
  "req_params (request_interceptor w c) = req_params c"
  "req_method (request_interceptor w c) = req_method c"
  "req_data (request_interceptor w c) = req_data c"
  by (simp_all add: request_interceptor_def Let_def split: option.split)

lemma make_request_fields [simp]:
  "req_url (make_request m u d cfg) = u"
  "req_params (make_request m u d cfg) = cfg_params cfg"
  "req_method (make_request m u d cfg) = m"
  "req_data (make_request m u d cfg) = d"
  by (simp_all add: make_request_def)

lemma last_sent_url [simp]:
  "req_url (last (sent (snd (api_get srv u cfg w)))) = u"
  "req_url (last (sent (snd (api_post srv u d cfg w)))) = u"
  "req_url (last (sent (snd (api_patch srv u d cfg w)))) = u"
  "req_url (last (sent (snd (api_delete srv u cfg w)))) = u"
  by (simp_all add: api_get_def api_post_def api_patch_def api_delete_def axios_request_sent)

lemma axios_request_resolved:
  "srv (length (sent w)) (request_interceptor w c) = Some r \<Longrightarrow> 200 \<le> status r \<Longrightarrow>
     status r < 300 \<Longrightarrow> fst (axios_request srv c w) = Resolved r"
  by (simp add: axios_request_def Let_def)

lemma slots_url_auth:
  "\<not> starts_with (req_url (last (sent (snd (ApiClient_auth srv c w))))) ''/events/slots/''"
  "\<not> starts_with (req_url (last (sent (snd (ApiClient_auth srv c w))))) ''/availability/calculated-slots/''"
  by (cases c; simp)+

lemma slots_url_users:
  "\<not> starts_with (req_url (last (sent (snd (ApiClient_users srv c w))))) ''/events/slots/''"
  "\<not> starts_with (req_url (last (sent (snd (ApiClient_users srv c w))))) ''/availability/calculated-slots/''"
  by (cases c; simp)+

lemma slots_url_integrations:
  "\<not> starts_with (req_url (last (sent (snd (ApiClient_integrations srv c w))))) ''/events/slots/''"
  "\<not> starts_with (req_url (last (sent (snd (ApiClient_integrations srv c w))))) ''/availability/calculated-slots/''"
  by (cases c; simp)+

lemma slots_url_workflows:
  "\<not> starts_with (req_url (last (sent (snd (ApiClient_workflows srv c w))))) ''/events/slots/''"
  "\<not> starts_with (req_url (last (sent (snd (ApiClient_workflows srv c w))))) ''/availability/calculated-slots/''"
  by (cases c; simp)+

lemma slots_url_notifications:
  "\<not> starts_with (req_url (last (sent (snd (ApiClient_notifications srv c w))))) ''/events/slots/''"
  "\<not> starts_with (req_url (last (sent (snd (ApiClient_notifications srv c w))))) ''/availability/calculated-slots/''"
  by (cases c; simp)+

lemma slots_url_contacts:
  "\<not> starts_with (req_url (last (sent (snd (ApiClient_contacts srv c w))))) ''/events/slots/''"
  "\<not> starts_with (req_url (last (sent (snd (ApiClient_contacts srv c w))))) ''/availability/calculated-slots/''"
  by (cases c; simp)+

lemma slots_url_events:
  "starts_with (req_url (last (sent (snd (ApiClient_events srv c w))))) ''/events/slots/''
     \<longleftrightarrow> (\<exists>organizerSlug eventTypeSlug params.
           c = events_getAvailableSlots organizerSlug eventTypeSlug params)"
  "\<not> starts_with (req_url (last (sent (snd (ApiClient_events srv c w))))) ''/availability/calculated-slots/''"
  by (cases c; simp)+

lemma slots_url_availability:
  "starts_with (req_url (last (sent (snd (ApiClient_availability srv c w)))))
       ''/availability/calculated-slots/''
     \<longleftrightarrow> (\<exists>organizerSlug params. c = availability_getCalculatedSlots organizerSlug params)"
  "\<not> starts_with (req_url (last (sent (snd (ApiClient_availability srv c w))))) ''/events/slots/''"
  by (cases c; simp)+

lemma slot_endpoints_only:
  "starts_with (req_url (last (sent (snd (ApiClient srv c w))))) ''/events/slots/''
     \<longleftrightarrow> (\<exists>organizerSlug eventTypeSlug params.
           c = Events (events_getAvailableSlots organizerSlug eventTypeSlug params))"
  "starts_with (req_url (last (sent (snd (ApiClient srv c w))))) ''/availability/calculated-slots/''
     \<longleftrightarrow> (\<exists>organizerSlug params.
           c = Availability (availability_getCalculatedSlots organizerSlug params))"
  by (cases c; simp add: slots_url_auth slots_url_users slots_url_integrations
      slots_url_workflows slots_url_notifications slots_url_contacts slots_url_events
      slots_url_availability)+


text \<open>
  Claim C6. The frontend computes no slots itself. Each of the two slot methods of the API
  client sends one GET request to its backend endpoint with the caller's parameters passed
  through untouched; when the backend answers with a list, the slots displayed are exactly
  that list; and no other method of the API client addresses a slot endpoint.
\<close>

theorem slots_come_from_backend:
  "sent (snd (ApiClient srv (Events (events_getAvailableSlots organizerSlug eventTypeSlug params)) w))
     = sent w @ [request_interceptor w
         (make_request GET (''/events/slots/'' @ organizerSlug @ ''/'' @ eventTypeSlug @ ''/'')
            JUndefined (no_config\<lparr>cfg_params := params\<rparr>))]
   \<and> sent (snd (ApiClient srv (Availability (availability_getCalculatedSlots organizerSlug params)) w))
     = sent w @ [request_interceptor w
         (make_request GET (''/availability/calculated-slots/'' @ organizerSlug @ ''/'')
            JUndefined (no_config\<lparr>cfg_params := params\<rparr>))]
   \<and> (req_params (last (sent (snd (ApiClient srv
           (Events (events_getAvailableSlots organizerSlug eventTypeSlug params)) w)))) = params
      \<and> req_params (last (sent (snd (ApiClient srv
           (Availability (availability_getCalculatedSlots organizerSlug params)) w)))) = params)
   \<and> (srv (length (sent w))
          (last (sent (snd (ApiClient srv
             (Events (events_getAvailableSlots organizerSlug eventTypeSlug params)) w)))) = Some r
        \<and> 200 \<le> status r \<and> status r < 300 \<and> resp_data r = JArr slots \<longrightarrow>
          displayed_slots (fst (ApiClient srv
             (Events (events_getAvailableSlots organizerSlug eventTypeSlug params)) w)) = slots)
   \<and> (srv (length (sent w))
          (last (sent (snd (ApiClient srv
             (Availability (availability_getCalculatedSlots organizerSlug params)) w)))) = Some r
        \<and> 200 \<le> status r \<and> status r < 300 \<and> resp_data r = JArr slots \<longrightarrow>
          displayed_slots (fst (ApiClient srv
             (Availability (availability_getCalculatedSlots organizerSlug params)) w)) = slots)
   \<and> (starts_with (req_url (last (sent (snd (ApiClient srv c w))))) ''/events/slots/''
        \<longrightarrow> (\<exists>organizerSlug eventTypeSlug params.
               c = Events (events_getAvailableSlots organizerSlug eventTypeSlug params)))
   \<and> (starts_with (req_url (last (sent (snd (ApiClient srv c w)))))
          ''/availability/calculated-slots/''
        \<longrightarrow> (\<exists>organizerSlug params.
               c = Availability (availability_getCalculatedSlots organizerSlug params)))"
proof -
  let ?a = "make_request GET (''/events/slots/'' @ organizerSlug @ ''/'' @ eventTypeSlug @ ''/'')
            JUndefined (no_config\<lparr>cfg_params := params\<rparr>)"
  let ?b = "make_request GET (''/availability/calculated-slots/'' @ organizerSlug @ ''/'')
            JUndefined (no_config\<lparr>cfg_params := params\<rparr>)"
  have a: "ApiClient srv (Events (events_getAvailableSlots organizerSlug eventTypeSlug params)) w
      = axios_request srv ?a w"
    by (simp add: api_get_def)
  have b: "ApiClient srv (Availability (availability_getCalculatedSlots organizerSlug params)) w
      = axios_request srv ?b w"
    by (simp add: api_get_def)
  have sa: "sent (snd (axios_request srv ?a w)) = sent w @ [request_interceptor w ?a]"
    by (rule axios_request_sent)
  have sb: "sent (snd (axios_request srv ?b w)) = sent w @ [request_interceptor w ?b]"
    by (rule axios_request_sent)
  have pa: "req_params (request_interceptor w ?a) = params"
    and pb: "req_params (request_interceptor w ?b) = params"
    by (simp_all add: no_config_def)
  have da: "displayed_slots (fst (axios_request srv ?a w)) = slots"
    if "srv (length (sent w)) (request_interceptor w ?a) = Some r" "200 \<le> status r"
      "status r < 300" "resp_data r = JArr slots"
    using that axios_request_resolved [of srv w ?a r] by (simp add: displayed_slots_def)
  have db: "displayed_slots (fst (axios_request srv ?b w)) = slots"
    if "srv (length (sent w)) (request_interceptor w ?b) = Some r" "200 \<le> status r"
      "status r < 300" "resp_data r = JArr slots"
    using that axios_request_resolved [of srv w ?b r] by (simp add: displayed_slots_def)
  show ?thesis
    unfolding a b sa sb
    using pa pb da db slot_endpoints_only [of srv c w]
    by (simp del: ApiClient.simps)
qed

theorem slots_come_from_backend_witness:
  "displayed_slots (fst (ApiClient (backend_replies 200 two_slots)
       (Events (events_getAvailableSlots ''ada'' ''intro-call'' slot_params)) browser0))
     = [JObj [(''start'', JStr ''2025-01-06T09:00:00Z'')],
        JObj [(''start'', JStr ''2025-01-06T09:30:00Z'')]]
   \<and> displayed_slots (fst (ApiClient (backend_replies 200 two_slots)
       (Availability (availability_getCalculatedSlots ''ada'' slot_params)) browser0))
     = [JObj [(''start'', JStr ''2025-01-06T09:00:00Z'')],
        JObj [(''start'', JStr ''2025-01-06T09:30:00Z'')]]
   \<and> map req_url (sent (snd (ApiClient (backend_replies 200 two_slots)
       (Events (events_getAvailableSlots ''ada'' ''intro-call'' slot_params)) browser0)))
     = [''/events/slots/ada/intro-call/'']"
proof -
  let ?r = "\<lparr>status = 200, resp_data = two_slots\<rparr>"
  have r: "backend_replies 200 two_slots n q = Some ?r" for n q
    by (simp add: backend_replies_def)
  show ?thesis
    using r slots_come_from_backend [of "backend_replies 200 two_slots" "''ada''"
        "''intro-call''" slot_params browser0 ?r
        "[JObj [(''start'', JStr ''2025-01-06T09:00:00Z'')],
          JObj [(''start'', JStr ''2025-01-06T09:30:00Z'')]]"
        "Events (events_getAvailableSlots ''ada'' ''intro-call'' slot_params)"]
    by (simp add: two_slots_def browser0_def)
qed

subsection \<open>The stored user\<close>

lemma router_push_storage [simp]:
  "has_window (router_push p w) = has_window w"
  by (simp add: router_push_def)

lemma login_stores_response:
  assumes "srv (length (sent w)) (request_interceptor w
        (make_request POST ''/users/login/''
           (JObj [(''email'', email), (''password'', password), (''remember_me'', rememberMe)])
           no_config)) = Some r"
    and "200 \<le> status r" "status r < 300" "\<not> nullish (resp_data r)"
  shows "user (snd (login rt srv email password rememberMe w)) = opt_prop (resp_data r) ''user''"
    and "localStorage (snd (login rt srv email password rememberMe w)) ''user_data''
           = Some (JSON_stringify rt (opt_prop (resp_data r) ''user''))"
  using assms
  by (simp_all add: login_def api_post_def axios_request_def Let_def USER_DATA_def
      AUTH_TOKEN_def error_code_def)

lemma register_stores_response:
  assumes "srv (length (sent w)) (request_interceptor w
        (make_request POST ''/users/register/'' d no_config)) = Some r"
    and "200 \<le> status r" "status r < 300" "\<not> nullish (resp_data r)"
  shows "user (snd (register rt srv d w)) = opt_prop (resp_data r) ''user''"
    and "localStorage (snd (register rt srv d w)) ''user_data''
           = Some (JSON_stringify rt (opt_prop (resp_data r) ''user''))"
  using assms
  by (simp_all add: register_def api_post_def axios_request_def Let_def USER_DATA_def
      AUTH_TOKEN_def)

lemma refreshUser_refetches:
  assumes "srv (length (sent w)) (request_interceptor w
        (make_request GET ''/users/profile/'' JUndefined no_config)) = Some r"
    and "200 \<le> status r" "status r < 300"
  shows "user (snd (refreshUser rt srv w)) = resp_data r"
    and "localStorage (snd (refreshUser rt srv w)) ''user_data''
           = Some (JSON_stringify rt (resp_data r))"
    and "sent (snd (refreshUser rt srv w)) = sent w @ [request_interceptor w
        (make_request GET ''/users/profile/'' JUndefined no_config)]"
  using assms
  by (simp_all add: refreshUser_def api_get_def axios_request_def Let_def USER_DATA_def)

lemma updateUser_local:
  "truthy (user w) \<Longrightarrow> user (updateUser rt u w) = spread2 (user w) u"
  "truthy (user w) \<Longrightarrow>
     localStorage (updateUser rt u w) ''user_data'' = Some (JSON_stringify rt (spread2 (user w) u))"
  "\<not> truthy (user w) \<Longrightarrow> updateUser rt u w = w"
  "sent (updateUser rt u w) = sent w"
  by (simp_all add: updateUser_def Let_def USER_DATA_def)

text \<open>
  Claim C5 says that every write of USER_DATA stores data taken from a backend response
  and that nothing fabricated locally is persisted. The profile form is a counterexample:
  with an empty request log, its submit stores under \<open>user_data\<close> a user object that
  carries the values typed into the form.
\<close>

theorem profile_submit_persists_unconfirmed_state:
  "sent (snd (ProfileForm_onSubmit sample_runtime sample_profile None
            (updateUser sample_runtime) profile_data (profile_form0, logged_in))) = []
   \<and> user (snd (ProfileForm_onSubmit sample_runtime sample_profile None
            (updateUser sample_runtime) profile_data (profile_form0, logged_in)))
       = JObj [(''id'', JStr ''u1''), (''email'', JStr ''ada@example.com''),
               (''profile'', JObj [(''display_name'', JStr ''Ada L.''),
                                   (''timezone_name'', JStr ''UTC''),
                                   (''bio'', JStr ''Analyst'')])]
   \<and> localStorage (snd (ProfileForm_onSubmit sample_runtime sample_profile None
            (updateUser sample_runtime) profile_data (profile_form0, logged_in))) ''user_data''
       = Some (sample_stringify
           (JObj [(''id'', JStr ''u1''), (''email'', JStr ''ada@example.com''),
                  (''profile'', JObj [(''display_name'', JStr ''Ada L.''),
                                      (''timezone_name'', JStr ''UTC''),
                                      (''bio'', JStr ''Analyst'')])]))"
  by (simp add: ProfileForm_onSubmit_def ProfileForm_try_def try_catch_finally_def
      call_optional_def stop_loading_def Let_def updateUser_def logged_in_def browser0_def
      sample_user_def sample_profile_def profile_data_def spread2_def show_toast_def
      setStorageItem_def USER_DATA_def sample_runtime_def del: sample_stringify.simps)

text \<open>
  Claim C5, amended. login, register and refreshUser keep, in memory and under USER_DATA,
  exactly the user object of the backend response they have just received, and refreshUser
  repairs stale state by one GET of the profile endpoint. updateUser is different: it
  merges the fields its caller supplies into the current user and persists the result
  without any request (and does nothing when no user is logged in).
\<close>

theorem user_cache_writes:
  "(srv (length (sent w)) (request_interceptor w
        (make_request POST ''/users/login/''
           (JObj [(''email'', email), (''password'', password), (''remember_me'', rememberMe)])
           no_config)) = Some r
      \<and> 200 \<le> status r \<and> status r < 300 \<and> \<not> nullish (resp_data r) \<longrightarrow>
        user (snd (login rt srv email password rememberMe w)) = opt_prop (resp_data r) ''user''
      \<and> localStorage (snd (login rt srv email password rememberMe w)) ''user_data''
           = Some (JSON_stringify rt (opt_prop (resp_data r) ''user'')))
   \<and> (srv (length (sent w)) (request_interceptor w
        (make_request POST ''/users/register/'' d no_config)) = Some r
      \<and> 200 \<le> status r \<and> status r < 300 \<and> \<not> nullish (resp_data r) \<longrightarrow>
        user (snd (register rt srv d w)) = opt_prop (resp_data r) ''user''
      \<and> localStorage (snd (register rt srv d w)) ''user_data''
           = Some (JSON_stringify rt (opt_prop (resp_data r) ''user'')))
   \<and> (srv (length (sent w)) (request_interceptor w
        (make_request GET ''/users/profile/'' JUndefined no_config)) = Some r
      \<and> 200 \<le> status r \<and> status r < 300 \<longrightarrow>
        user (snd (refreshUser rt srv w)) = resp_data r
      \<and> localStorage (snd (refreshUser rt srv w)) ''user_data''
           = Some (JSON_stringify rt (resp_data r))
      \<and> sent (snd (refreshUser rt srv w)) = sent w @ [request_interceptor w
           (make_request GET ''/users/profile/'' JUndefined no_config)])
   \<and> (truthy (user w) \<longrightarrow>
        user (updateUser rt u w) = spread2 (user w) u
      \<and> localStorage (updateUser rt u w) ''user_data''
           = Some (JSON_stringify rt (spread2 (user w) u)))
   \<and> (\<not> truthy (user w) \<longrightarrow> updateUser rt u w = w)
   \<and> sent (updateUser rt u w) = sent w"
  using login_stores_response [where srv = srv and w = w and email = email
      and password = password and rememberMe = rememberMe and r = r and rt = rt]
    register_stores_response [where srv = srv and w = w and d = d and r = r and rt = rt]
    refreshUser_refetches [where srv = srv and w = w and r = r and rt = rt]
    updateUser_local [where w = w and rt = rt and u = u]
  by blast

theorem user_cache_writes_witness:
  "user (snd (refreshUser sample_runtime (backend_replies 200 sample_user) browser0)) = sample_user
   \<and> localStorage (snd (refreshUser sample_runtime (backend_replies 200 sample_user) browser0))
        ''user_data'' = Some (sample_stringify sample_user)
   \<and> length (sent (snd (refreshUser sample_runtime (backend_replies 200 sample_user) browser0))) = 1
   \<and> user (snd (register sample_runtime (backend_replies 200 registered) signup_data browser0))
       = sample_user
   \<and> user (updateUser sample_runtime (JObj [(''is_mfa_enabled'', JBool True)]) logged_in)
       = JObj [(''id'', JStr ''u1''), (''email'', JStr ''ada@example.com''),
               (''is_mfa_enabled'', JBool True)]
   \<and> sent (updateUser sample_runtime (JObj [(''is_mfa_enabled'', JBool True)]) logged_in) = []
   \<and> updateUser sample_runtime (JObj [(''is_mfa_enabled'', JBool True)]) browser0 = browser0"
proof -
  have r1: "backend_replies 200 sample_user n q = Some \<lparr>status = 200, resp_data = sample_user\<rparr>"
    for n q by (simp add: backend_replies_def)
  have r2: "backend_replies 200 registered n q = Some \<lparr>status = 200, resp_data = registered\<rparr>"
    for n q by (simp add: backend_replies_def)
  have nn: "\<not> nullish (resp_data \<lparr>status = 200, resp_data = registered\<rparr>)"
    by (simp add: nullish_def registered_def)
  have t: "truthy (user logged_in)" "\<not> truthy (user browser0)"
    by (simp_all add: logged_in_def browser0_def sample_user_def)
  show ?thesis
    using r1 r2 nn t
      user_cache_writes [of "backend_replies 200 sample_user" browser0 JNull JNull JNull
        "\<lparr>status = 200, resp_data = sample_user\<rparr>" sample_runtime signup_data
        "JObj [(''is_mfa_enabled'', JBool True)]"]
      user_cache_writes [of "backend_replies 200 registered" browser0 JNull JNull JNull
        "\<lparr>status = 200, resp_data = registered\<rparr>" sample_runtime signup_data
        "JObj [(''is_mfa_enabled'', JBool True)]"]
      user_cache_writes [of "backend_replies 200 registered" logged_in JNull JNull JNull
        "\<lparr>status = 200, resp_data = registered\<rparr>" sample_runtime signup_data
        "JObj [(''is_mfa_enabled'', JBool True)]"]
    by (simp add: sample_runtime_def registered_def logged_in_def browser0_def sample_user_def
        spread2_def del: sample_stringify.simps)
qed

end
